theory Spec2Isabelle
  imports Complex_Main "HOL-Library.Word" "HOL-Library.Sublist"
begin

unbundle bit_operations_syntax

section \<open>JavaScript strings\<close>

text \<open>
  A JavaScript string is a sequence of UTF-16 code units. A code unit is modelled as a
  natural number below 65536; ASCII literals of the source are written with \<open>js\<close>.
\<close>

type_synonym jsstring = "nat list"

definition js :: "string \<Rightarrow> jsstring" where
  "js s = map of_char s"

text \<open>
  The characters matched by \<open>\s\<close> in a regular expression and stripped by
  \<open>String.prototype.trim\<close>: tab, line feed, vertical tab, form feed, carriage return,
  space, U+00A0, U+1680, U+2000..U+200A, U+2028, U+2029, U+202F, U+205F, U+3000, U+FEFF.
\<close>

definition isWhiteSpace :: "nat \<Rightarrow> bool" where
  "isWhiteSpace c \<longleftrightarrow>
     (9 \<le> c \<and> c \<le> 13) \<or> c = 32 \<or> c = 160 \<or> c = 5760 \<or> (8192 \<le> c \<and> c \<le> 8202) \<or>
     c = 8232 \<or> c = 8233 \<or> c = 8239 \<or> c = 8287 \<or> c = 12288 \<or> c = 65279"

definition isDigit :: "nat \<Rightarrow> bool" where
  "isDigit c \<longleftrightarrow> 48 \<le> c \<and> c \<le> 57"

text \<open>\<open>str.trim()\<close>\<close>

definition trim :: "jsstring \<Rightarrow> jsstring" where
  "trim s = rev (dropWhile isWhiteSpace (rev (dropWhile isWhiteSpace s)))"

text \<open>\<open>str.replace(/\s+/g, ' ')\<close>: every maximal run of white space becomes one space.\<close>

function collapseSpaces :: "jsstring \<Rightarrow> jsstring" where
  "collapseSpaces [] = []"
| "collapseSpaces (c # cs) =
     (if isWhiteSpace c then 32 # collapseSpaces (dropWhile isWhiteSpace cs)
      else c # collapseSpaces cs)"
  by pat_completeness auto
termination
  by (relation "measure length") (auto simp: less_Suc_eq_le length_dropWhile_le)

text \<open>\<open>str.includes(sub)\<close>: \<open>sub\<close> occurs at some position of \<open>str\<close>.\<close>

fun str_includes :: "jsstring \<Rightarrow> jsstring \<Rightarrow> bool" where
  "str_includes [] sub = (sub = [])"
| "str_includes (c # cs) sub = (prefix sub (c # cs) \<or> str_includes cs sub)"

text \<open>
  \<open>str.toLowerCase()\<close> on the ASCII letters. The case mapping of the code units
  outside ASCII belongs to the host's Unicode tables and is left as the identity.
\<close>

definition toLowerCase :: "jsstring \<Rightarrow> jsstring" where
  "toLowerCase s = map (\<lambda>c. if 65 \<le> c \<and> c \<le> 90 then c + 32 else c) s"

section \<open>Data formatter: \<open>sanitizeString\<close>\<close>

text \<open>
  \<^verbatim>\<open>
  sanitizeString(str) {
    if (!str) return '';
    return str.trim()
      .replace(/\s+/g, ' ')
      .replace(/[\r\n\t]/g, ' ')
      .replace(/[^\x20-\x7E\u00A0-\uFFFF]/g, '')
      .substring(0, 10000);
  }
  \<close>
\<close>

definition isLineBreakOrTab :: "nat \<Rightarrow> bool" where
  "isLineBreakOrTab c \<longleftrightarrow> c = 13 \<or> c = 10 \<or> c = 9"

definition isPrintable :: "nat \<Rightarrow> bool" where
  "isPrintable c \<longleftrightarrow> (32 \<le> c \<and> c \<le> 126) \<or> (160 \<le> c \<and> c \<le> 65535)"

definition sanitizeString :: "jsstring \<Rightarrow> jsstring" where
  "sanitizeString str =
     (if str = [] then []
      else take 10000
             (filter isPrintable
               (map (\<lambda>c. if isLineBreakOrTab c then 32 else c)
                 (collapseSpaces (trim str)))))"

text \<open>\<open>String(n)\<close> for a non-negative integer: its decimal digits.\<close>

fun decimal :: "nat \<Rightarrow> jsstring" where
  "decimal n = (if n < 10 then [48 + n] else decimal (n div 10) @ [48 + n mod 10])"

declare decimal.simps [simp del]

section \<open>JavaScript numbers and values\<close>

text \<open>
  A JavaScript number is either \<open>NaN\<close> or a finite value. Finite values are exact
  rationals: the rounding of IEEE binary64 arithmetic and the infinities are not
  modelled.
\<close>

datatype jsnumber = NaN | Num rat

datatype jsvalue = JUndefined | JNull | JBoolean bool | JNumber jsnumber | JString jsstring

text \<open>\<open>x * k\<close> and \<open>Math.round(x)\<close> (halves round towards plus infinity).\<close>

fun times :: "jsnumber \<Rightarrow> rat \<Rightarrow> jsnumber" where
  "times NaN k = NaN"
| "times (Num q) k = Num (q * k)"

fun Math_round :: "jsnumber \<Rightarrow> jsnumber" where
  "Math_round NaN = NaN"
| "Math_round (Num q) = Num (of_int \<lfloor>q + 1 / 2\<rfloor>)"

text \<open>The value of a string of decimal digits.\<close>

definition digitsValue :: "jsstring \<Rightarrow> nat" where
  "digitsValue ds = foldl (\<lambda>a c. 10 * a + (c - 48)) 0 ds"

text \<open>An optional sign at the head of a string: whether it is a minus, and the rest.\<close>

fun splitSign :: "jsstring \<Rightarrow> bool \<times> jsstring" where
  "splitSign [] = (False, [])"
| "splitSign (c # cs) =
     (if c = 45 then (True, cs) else if c = 43 then (False, cs) else (False, c # cs))"

text \<open>The exponent part \<open>[eE][+-]?[0-9]+\<close> at the head of a string, 0 when there is none.\<close>

fun exponentPart :: "jsstring \<Rightarrow> int" where
  "exponentPart [] = 0"
| "exponentPart (c # cs) =
     (if c = 101 \<or> c = 69 then
        (let (neg, r) = splitSign cs; ds = takeWhile isDigit r
         in if ds = [] then 0
            else if neg then - int (digitsValue ds) else int (digitsValue ds))
      else 0)"

definition pow10 :: "int \<Rightarrow> rat" where
  "pow10 e = (if 0 \<le> e then 10 ^ nat e else 1 / 10 ^ nat (- e))"

text \<open>
  \<open>parseFloat(str)\<close>: leading white space is skipped and the longest prefix that is a
  decimal literal (sign, digits, fraction, exponent) is read; \<open>NaN\<close> when there is none.
  The literal \<open>Infinity\<close> is not modelled: no caller below can pass it, since the text
  is lower-cased, or stripped to digits, separators and K/M/B, first.
\<close>

definition parseFloat :: "jsstring \<Rightarrow> jsnumber" where
  "parseFloat str =
     (let (neg, u) = splitSign (dropWhile isWhiteSpace str);
          ip = takeWhile isDigit u;
          r1 = dropWhile isDigit u;
          (fp, r2) = (case r1 of
                        [] \<Rightarrow> ([], [])
                      | c # r \<Rightarrow> if c = 46 then (takeWhile isDigit r, dropWhile isDigit r)
                                 else ([], r1))
      in if ip = [] \<and> fp = [] then NaN
         else (let m = of_nat (digitsValue (ip @ fp)) / 10 ^ length fp * pow10 (exponentPart r2)
               in Num (if neg then - m else m)))"

text \<open>\<open>parseInt(str, 10)\<close>: white space, sign, then the leading decimal digits.\<close>

definition parseInt :: "jsstring \<Rightarrow> jsnumber" where
  "parseInt str =
     (let (neg, u) = splitSign (dropWhile isWhiteSpace str);
          ds = takeWhile isDigit u
      in if ds = [] then NaN
         else Num (if neg then - of_nat (digitsValue ds) else of_nat (digitsValue ds)))"

section \<open>Data formatter: \<open>parseNumber\<close>\<close>

text \<open>
  \<^verbatim>\<open>
  parseNumber(value) {
    if (typeof value === 'number') return value;
    if (!value) return 0;
    const str = String(value).toLowerCase().replace(/,/g, '');
    if (str.includes('k')) return Math.round(parseFloat(str) * 1000);
    if (str.includes('m')) return Math.round(parseFloat(str) * 1000000);
    if (str.includes('b')) return Math.round(parseFloat(str) * 1000000000);
    const num = parseInt(str, 10);
    return isNaN(num) ? 0 : num;
  }
  \<close>
  \<open>falsy\<close> is \<open>!value\<close> and \<open>String_of\<close> is \<open>String(value)\<close> on the primitive
  values; a number never reaches \<open>String_of\<close> here.
\<close>

fun falsy :: "jsvalue \<Rightarrow> bool" where
  "falsy JUndefined = True"
| "falsy JNull = True"
| "falsy (JBoolean b) = (\<not> b)"
| "falsy (JNumber NaN) = True"
| "falsy (JNumber (Num q)) = (q = 0)"
| "falsy (JString s) = (s = [])"

fun String_of :: "jsvalue \<Rightarrow> jsstring" where
  "String_of (JString s) = s"
| "String_of (JBoolean b) = (if b then js ''true'' else js ''false'')"
| "String_of JUndefined = js ''undefined''"
| "String_of JNull = js ''null''"
| "String_of (JNumber n) = []"

definition parseNumber :: "jsvalue \<Rightarrow> jsnumber" where
  "parseNumber v =
     (case v of
        JNumber n \<Rightarrow> n
      | _ \<Rightarrow>
        if falsy v then Num 0
        else (let str = filter (\<lambda>c. c \<noteq> 44) (toLowerCase (String_of v))
              in if str_includes str (js ''k'') then Math_round (times (parseFloat str) 1000)
                 else if str_includes str (js ''m'') then Math_round (times (parseFloat str) 1000000)
                 else if str_includes str (js ''b'') then
                   Math_round (times (parseFloat str) 1000000000)
                 else (case parseInt str of NaN \<Rightarrow> Num 0 | Num n \<Rightarrow> Num n)))"

section \<open>Errors\<close>

text \<open>
  A thrown JavaScript exception is a value: \<open>Error\<close> for \<open>throw new Error(msg)\<close> of
  the source, the other constructors for the exceptions the host raises. A computation
  that may throw returns \<open>error + 'a\<close>, and \<open>andThen\<close> runs the next statement only when
  the previous one did not throw.
\<close>

datatype error = Error string | TypeError string | SyntaxError string | RangeError string

definition andThen :: "error + 'a \<Rightarrow> ('a \<Rightarrow> error + 'b) \<Rightarrow> error + 'b" where
  "andThen m f = (case m of Inl e \<Rightarrow> Inl e | Inr x \<Rightarrow> f x)"

section \<open>Data formatter: records\<close>

text \<open>
  The raw record handed to \<open>formatPostData\<close>. A field that may be missing
  (\<open>undefined\<close> or \<open>null\<close>) is an \<open>option\<close>. The content is documented as a string;
  \<open>determinePostType\<close> reads it as an object with a \<open>text\<close> property, so both shapes
  are kept. A media entry is a URL string or an object with optional \<open>url\<close> and
  \<open>alt\<close>/\<open>title\<close>.
\<close>

record raw_author =
  raw_name :: "jsstring option"
  raw_profile :: "jsstring option"
  raw_image :: "jsstring option"
  raw_title :: "jsstring option"
  raw_company :: "jsstring option"

datatype raw_content = ContentString jsstring | ContentObject (content_text: "jsstring option")

record raw_metrics =
  raw_likes :: jsvalue
  raw_comments :: jsvalue
  raw_shares :: jsvalue
  raw_views :: jsvalue
  raw_reactions :: "(jsstring \<times> jsvalue) list option"

datatype media_item = ItemString jsstring | ItemObject (item_url: "jsstring option") (item_title: "jsstring option")

record raw_media =
  raw_images :: "media_item list option"
  raw_videos :: "media_item list option"
  raw_documents :: "media_item list option"

record raw_post =
  raw_id :: "jsstring option"
  raw_url :: "jsstring option"
  raw_author :: "raw_author option"
  raw_content :: "raw_content option"
  raw_metrics :: "raw_metrics option"
  raw_media :: "raw_media option"

text \<open>
  The formatted record. The timestamp fields, \<open>extractedAt\<close> and \<open>platform\<close>, and the
  hashtags, mentions, link flag and sentiment of the content are computed by formatters
  that catch their own failures and that no property below reads; they are left out.
  The pass-through fields of a media entry (\<open>width\<close>, \<open>height\<close>, \<open>thumbnail\<close>,
  \<open>duration\<close>, \<open>type\<close>) are left out as well.
\<close>

record author_data =
  author_name :: jsstring
  author_profile :: jsstring
  author_image :: jsstring
  author_title :: "jsstring option"
  author_company :: "jsstring option"

record content_data =
  content_text_of :: jsstring
  content_wordCount :: nat
  content_characterCount :: nat

record metrics_data =
  metrics_likes :: jsnumber
  metrics_comments :: jsnumber
  metrics_shares :: jsnumber
  metrics_views :: jsnumber
  metrics_reactions :: "(jsstring \<times> jsnumber) list option"
  metrics_engagementRate :: jsnumber

record media_entry =
  entry_url :: jsstring
  entry_title :: jsstring

record media_data =
  media_images :: "media_entry list"
  media_videos :: "media_entry list"
  media_documents :: "media_entry list"
  media_hasMedia :: bool

datatype post_type = TypeVideo | TypeCarousel | TypeImage | TypeDocument | TypePoll | TypeText

record post_data =
  post_id :: "jsstring option"
  post_url :: jsstring
  post_author :: "author_data option"
  post_content :: "content_data option"
  post_metrics :: metrics_data
  post_media :: "media_data option"
  post_postType :: post_type

section \<open>Data formatter: fields\<close>

text \<open>\<open>x || d\<close> for an optional string: \<open>d\<close> when \<open>x\<close> is missing or empty.\<close>

fun orElse :: "jsstring option \<Rightarrow> jsstring \<Rightarrow> jsstring" where
  "orElse None d = d"
| "orElse (Some s) d = (if s = [] then d else s)"

text \<open>
  \<open>formatUrl(url)\<close>. Whether \<open>new URL(url)\<close> accepts a string is decided by the host's
  URL parser, the parameter \<open>validUrl\<close>.
  \<^verbatim>\<open>
    if (!url) return '';
    try {
      if (url.startsWith('/')) url = 'https://www.linkedin.com' + url;
      new URL(url);
      return url;
    } catch (error) { return ''; }
  \<close>
\<close>

definition formatUrl :: "(jsstring \<Rightarrow> bool) \<Rightarrow> jsstring option \<Rightarrow> jsstring" where
  "formatUrl validUrl url =
     (case url of
        None \<Rightarrow> []
      | Some u \<Rightarrow>
          if u = [] then []
          else (let u' = (if prefix (js ''/'') u then js ''https://www.linkedin.com'' @ u else u)
                in if validUrl u' then u' else []))"

text \<open>
  \<^verbatim>\<open>
  formatAuthorData(authorData) {
    if (!authorData) return { name: 'Unknown', profile: '', image: '' };
    return {
      name: this.sanitizeString(authorData.name || 'Unknown'),
      profile: this.formatUrl(authorData.profile),
      image: this.formatUrl(authorData.image),
      title: this.sanitizeString(authorData.title || ''),
      company: this.sanitizeString(authorData.company || '')
    };
  }
  \<close>
\<close>

definition formatAuthorData :: "(jsstring \<Rightarrow> bool) \<Rightarrow> raw_author option \<Rightarrow> author_data" where
  "formatAuthorData validUrl authorData =
     (case authorData of
        None \<Rightarrow> \<lparr>author_name = js ''Unknown'', author_profile = [], author_image = [],
                 author_title = None, author_company = None\<rparr>
      | Some a \<Rightarrow>
          \<lparr>author_name = sanitizeString (orElse (raw_name a) (js ''Unknown'')),
           author_profile = formatUrl validUrl (raw_profile a),
           author_image = formatUrl validUrl (raw_image a),
           author_title = Some (sanitizeString (orElse (raw_title a) [])),
           author_company = Some (sanitizeString (orElse (raw_company a) []))\<rparr>)"

text \<open>
  \<open>countWords(text)\<close>: \<open>text.trim().split(/\s+/).filter(word => word.length > 0).length\<close>,
  the number of maximal runs of characters that are not white space.
\<close>

function wordsOf :: "jsstring \<Rightarrow> jsstring list" where
  "wordsOf [] = []"
| "wordsOf (c # cs) =
     (if isWhiteSpace c then wordsOf cs
      else takeWhile (\<lambda>x. \<not> isWhiteSpace x) (c # cs) # wordsOf (dropWhile (\<lambda>x. \<not> isWhiteSpace x) cs))"
  by pat_completeness auto
termination
  by (relation "measure length") (auto simp: less_Suc_eq_le length_dropWhile_le)

definition countWords :: "jsstring \<Rightarrow> nat" where
  "countWords text = (if text = [] then 0 else length (wordsOf (trim text)))"

text \<open>
  \<open>formatContent(content)\<close>. A content that is an object is truthy and reaches
  \<open>sanitizeString\<close>, whose \<open>str.trim()\<close> then throws a \<open>TypeError\<close>.
\<close>

definition formatContent :: "raw_content option \<Rightarrow> error + content_data" where
  "formatContent content =
     (case content of
        None \<Rightarrow> Inr \<lparr>content_text_of = [], content_wordCount = 0, content_characterCount = 0\<rparr>
      | Some (ContentObject t) \<Rightarrow> Inl (TypeError ''str.trim is not a function'')
      | Some (ContentString s) \<Rightarrow>
          if s = [] then
            Inr \<lparr>content_text_of = [], content_wordCount = 0, content_characterCount = 0\<rparr>
          else (let cleanText = sanitizeString s
                in Inr \<lparr>content_text_of = cleanText, content_wordCount = countWords cleanText,
                        content_characterCount = length cleanText\<rparr>))"

text \<open>
  \<open>formatMetrics(metrics)\<close> with \<open>formatReactions\<close> and \<open>calculateEngagementRate\<close>:
  \<^verbatim>\<open>
    const totalEngagement = metrics.likes + metrics.comments + metrics.shares;
    if (metrics.views > 0)
      return Math.round((totalEngagement / metrics.views) * 100 * 100) / 100;
    return 0;
  \<close>
\<close>

fun plus_js :: "jsnumber \<Rightarrow> jsnumber \<Rightarrow> jsnumber" where
  "plus_js (Num a) (Num b) = Num (a + b)"
| "plus_js _ _ = NaN"

fun calculateEngagementRate :: "jsnumber \<Rightarrow> jsnumber \<Rightarrow> jsnumber \<Rightarrow> jsnumber \<Rightarrow> jsnumber" where
  "calculateEngagementRate likes comments shares NaN = Num 0"
| "calculateEngagementRate likes comments shares (Num v) =
     (if 0 < v then
        times (Math_round (times (times (times (plus_js (plus_js likes comments) shares)
                                                (1 / v)) 100) 100)) (1 / 100)
      else Num 0)"

definition formatReactions :: "(jsstring \<times> jsvalue) list option \<Rightarrow> (jsstring \<times> jsnumber) list" where
  "formatReactions reactions =
     (case reactions of None \<Rightarrow> [] | Some rs \<Rightarrow> map (\<lambda>(k, v). (k, parseNumber v)) rs)"

definition formatMetrics :: "raw_metrics option \<Rightarrow> metrics_data" where
  "formatMetrics metrics =
     (case metrics of
        None \<Rightarrow> \<lparr>metrics_likes = Num 0, metrics_comments = Num 0, metrics_shares = Num 0,
                 metrics_views = Num 0, metrics_reactions = None, metrics_engagementRate = Num 0\<rparr>
      | Some m \<Rightarrow>
          (let l = parseNumber (raw_likes m); c = parseNumber (raw_comments m);
               s = parseNumber (raw_shares m); v = parseNumber (raw_views m)
           in \<lparr>metrics_likes = l, metrics_comments = c, metrics_shares = s, metrics_views = v,
               metrics_reactions = Some (formatReactions (raw_reactions m)),
               metrics_engagementRate = calculateEngagementRate l c s v\<rparr>))"

text \<open>
  \<open>formatImageArray\<close>, \<open>formatVideoArray\<close> and \<open>formatDocumentArray\<close> differ in the
  default title only (\<open>Image n\<close>, \<open>Video n\<close>, \<open>Document n\<close>):
  \<^verbatim>\<open>
    if (!Array.isArray(images)) return [];
    return images.map((img, index) => ({
      url: this.formatUrl(img.url || img),
      alt: this.sanitizeString(img.alt || `Image ${index + 1}`), ...
    })).filter(img => img.url);
  \<close>
  For an entry that is an object without a usable \<open>url\<close>, \<open>formatUrl\<close> receives the
  object, its \<open>startsWith\<close> call throws inside its own \<open>try\<close>, and the URL is empty.
\<close>

fun urlOrSelf :: "media_item \<Rightarrow> jsstring option" where
  "urlOrSelf (ItemString s) = Some s"
| "urlOrSelf (ItemObject u t) = (case u of None \<Rightarrow> None | Some x \<Rightarrow> if x = [] then None else Some x)"

fun titleOf :: "media_item \<Rightarrow> jsstring option" where
  "titleOf (ItemString s) = None"
| "titleOf (ItemObject u t) = t"

definition formatItemArray ::
  "(jsstring \<Rightarrow> bool) \<Rightarrow> string \<Rightarrow> media_item list option \<Rightarrow> media_entry list" where
  "formatItemArray validUrl kind items =
     (case items of
        None \<Rightarrow> []
      | Some xs \<Rightarrow>
          filter (\<lambda>e. entry_url e \<noteq> [])
            (map (\<lambda>(index, item).
                    \<lparr>entry_url = formatUrl validUrl (urlOrSelf item),
                     entry_title = sanitizeString
                       (orElse (titleOf item) (js kind @ js '' '' @ decimal (index + 1)))\<rparr>)
                 (enumerate 0 xs)))"

text \<open>
  \<^verbatim>\<open>
  hasAnyMedia(media) {
    if (!media) return false;
    return (media.images && media.images.length > 0) ||
           (media.videos && media.videos.length > 0) ||
           (media.documents && media.documents.length > 0);
  }
  \<close>
  read as a truth value.
\<close>

definition nonEmpty :: "'a list option \<Rightarrow> bool" where
  "nonEmpty xs = (case xs of None \<Rightarrow> False | Some l \<Rightarrow> 0 < length l)"

definition hasAnyMedia :: "raw_media option \<Rightarrow> bool" where
  "hasAnyMedia media =
     (case media of
        None \<Rightarrow> False
      | Some m \<Rightarrow> nonEmpty (raw_images m) \<or> nonEmpty (raw_videos m) \<or> nonEmpty (raw_documents m))"

definition formatMediaData :: "(jsstring \<Rightarrow> bool) \<Rightarrow> raw_media option \<Rightarrow> media_data" where
  "formatMediaData validUrl media =
     (case media of
        None \<Rightarrow> \<lparr>media_images = [], media_videos = [], media_documents = [], media_hasMedia = False\<rparr>
      | Some m \<Rightarrow>
          \<lparr>media_images = formatItemArray validUrl ''Image'' (raw_images m),
           media_videos = formatItemArray validUrl ''Video'' (raw_videos m),
           media_documents = formatItemArray validUrl ''Document'' (raw_documents m),
           media_hasMedia = hasAnyMedia media\<rparr>)"

section \<open>Data formatter: \<open>determinePostType\<close>\<close>

text \<open>
  \<^verbatim>\<open>
  determinePostType(postData) {
    if (postData.media?.videos?.length > 0) return 'video';
    if (postData.media?.images?.length > 1) return 'carousel';
    if (postData.media?.images?.length === 1) return 'image';
    if (postData.media?.documents?.length > 0) return 'document';
    if (postData.content?.text?.includes('poll')) return 'poll';
    return 'text';
  }
  \<close>
  \<open>lengthOf f postData\<close> is \<open>postData.media?.f?.length\<close>, \<open>None\<close> for \<open>undefined\<close>; a
  comparison with \<open>undefined\<close> is false. \<open>textOf postData\<close> is
  \<open>postData.content?.text\<close>, which is \<open>undefined\<close> on a content that is a string.
\<close>

definition lengthOf :: "(raw_media \<Rightarrow> media_item list option) \<Rightarrow> raw_post \<Rightarrow> nat option" where
  "lengthOf f postData =
     (case raw_media postData of
        None \<Rightarrow> None
      | Some m \<Rightarrow> (case f m of None \<Rightarrow> None | Some xs \<Rightarrow> Some (length xs)))"

definition greaterThan :: "nat option \<Rightarrow> nat \<Rightarrow> bool" where
  "greaterThan x k = (case x of None \<Rightarrow> False | Some n \<Rightarrow> k < n)"

definition textOf :: "raw_post \<Rightarrow> jsstring option" where
  "textOf postData =
     (case raw_content postData of
        None \<Rightarrow> None
      | Some (ContentString s) \<Rightarrow> None
      | Some (ContentObject t) \<Rightarrow> t)"

definition determinePostType :: "raw_post \<Rightarrow> post_type" where
  "determinePostType postData =
     (if greaterThan (lengthOf raw_videos postData) 0 then TypeVideo
      else if greaterThan (lengthOf raw_images postData) 1 then TypeCarousel
      else if lengthOf raw_images postData = Some 1 then TypeImage
      else if greaterThan (lengthOf raw_documents postData) 0 then TypeDocument
      else if (case textOf postData of None \<Rightarrow> False | Some t \<Rightarrow> str_includes t (js ''poll''))
        then TypePoll
      else TypeText)"

section \<open>Data formatter: \<open>validatePostData\<close> and \<open>formatPostData\<close>\<close>

text \<open>
  \<^verbatim>\<open>
  validatePostData(postData) {
    const required = ['id', 'author', 'content'];
    for (const field of required) {
      if (!postData[field]) throw new Error(`Missing required field: ${field}`);
    }
    if (!postData.author.name) throw new Error('Author name is required');
    if (!postData.content.text && !postData.media.hasMedia)
      throw new Error('Post must have either text content or media');
  }
  \<close>
  Reading \<open>hasMedia\<close> of a missing \<open>media\<close> throws a \<open>TypeError\<close>; it is read only when
  the text is empty.
\<close>

definition validatePostData :: "post_data \<Rightarrow> error + unit" where
  "validatePostData postData =
     (if post_id postData = None \<or> post_id postData = Some [] then
        Inl (Error ''Missing required field: id'')
      else case post_author postData of
        None \<Rightarrow> Inl (Error ''Missing required field: author'')
      | Some author \<Rightarrow>
          (case post_content postData of
             None \<Rightarrow> Inl (Error ''Missing required field: content'')
           | Some content \<Rightarrow>
               if author_name author = [] then Inl (Error ''Author name is required'')
               else if content_text_of content = [] then
                 (case post_media postData of
                    None \<Rightarrow> Inl (TypeError ''Cannot read properties of undefined'')
                  | Some media \<Rightarrow>
                      if \<not> media_hasMedia media then
                        Inl (Error ''Post must have either text content or media'')
                      else Inr ())
               else Inr ()))"

text \<open>
  \<^verbatim>\<open>
  formatPostData(rawPostData) {
    try {
      const formatted = {
        id: this.sanitizeString(rawPostData.id),
        url: this.formatUrl(rawPostData.url),
        author: this.formatAuthorData(rawPostData.author),
        content: this.formatContent(rawPostData.content),
        metrics: this.formatMetrics(rawPostData.metrics),
        media: this.formatMediaData(rawPostData.media),
        ...
        postType: this.determinePostType(rawPostData), ...
      };
      this.validatePostData(formatted);
      return formatted;
    } catch (error) {
      console.error('Data Formatting Error:', error, { rawData: rawPostData });
      return null;
    }
  }
  \<close>
  \<open>buildFormatted\<close> is the object literal, \<open>formatPostData_try\<close> the body of the
  \<open>try\<close> block, and \<open>formatPostData\<close> the whole function, \<open>None\<close> being \<open>null\<close>.
\<close>

definition buildFormatted :: "(jsstring \<Rightarrow> bool) \<Rightarrow> raw_post option \<Rightarrow> error + post_data" where
  "buildFormatted validUrl rawPostData =
     (case rawPostData of
        None \<Rightarrow> Inl (TypeError ''Cannot read properties of null'')
      | Some raw \<Rightarrow>
          andThen (formatContent (raw_content raw)) (\<lambda>content.
            Inr \<lparr>post_id = Some (sanitizeString (orElse (raw_id raw) [])),
                 post_url = formatUrl validUrl (raw_url raw),
                 post_author = Some (formatAuthorData validUrl (raw_author raw)),
                 post_content = Some content,
                 post_metrics = formatMetrics (raw_metrics raw),
                 post_media = Some (formatMediaData validUrl (raw_media raw)),
                 post_postType = determinePostType raw\<rparr>))"

definition formatPostData_try :: "(jsstring \<Rightarrow> bool) \<Rightarrow> raw_post option \<Rightarrow> error + post_data" where
  "formatPostData_try validUrl rawPostData =
     andThen (buildFormatted validUrl rawPostData) (\<lambda>formatted.
       andThen (validatePostData formatted) (\<lambda>_. Inr formatted))"

definition formatPostData :: "(jsstring \<Rightarrow> bool) \<Rightarrow> raw_post option \<Rightarrow> post_data option" where
  "formatPostData validUrl rawPostData =
     (case formatPostData_try validUrl rawPostData of Inl error \<Rightarrow> None | Inr formatted \<Rightarrow> Some formatted)"

section \<open>The specification's reading of the formatter\<close>

text \<open>
  The words of the specification for \<open>determinePostType\<close> and \<open>validatePostData\<close>:
  the media lists of a record, empty when the field is missing; whether media is
  present in a formatted record; and when validation is said to fail (\<open>id\<close>,
  \<open>author\<close> or \<open>content\<close> falsy, \<open>author.name\<close> falsy, or \<open>content.text\<close> empty and no
  media present).
\<close>

definition mediaList :: "(raw_media \<Rightarrow> media_item list option) \<Rightarrow> raw_post \<Rightarrow> media_item list" where
  "mediaList f postData =
     (case raw_media postData of
        None \<Rightarrow> []
      | Some m \<Rightarrow> (case f m of None \<Rightarrow> [] | Some xs \<Rightarrow> xs))"

definition mediaPresent :: "post_data \<Rightarrow> bool" where
  "mediaPresent postData =
     (case post_media postData of None \<Rightarrow> False | Some media \<Rightarrow> media_hasMedia media)"

definition validationFails :: "post_data \<Rightarrow> bool" where
  "validationFails postData \<longleftrightarrow>
     post_id postData = None \<or> post_id postData = Some [] \<or>
     post_author postData = None \<or> post_content postData = None \<or>
     (\<exists>author. post_author postData = Some author \<and> author_name author = []) \<or>
     (\<exists>content. post_content postData = Some content \<and> content_text_of content = [] \<and>
        \<not> mediaPresent postData)"

section \<open>The page: DOM elements and the host\<close>

text \<open>
  What the extractor reads of a DOM element: its attributes, its text, its \<open>href\<close> and
  \<open>src\<close> properties (empty when absent) and the answers of \<open>querySelector\<close> and
  \<open>querySelectorAll\<close>, which the page decides and which may throw. An object that is not
  a DOM element (a partial mock) has no \<open>getAttribute\<close> function: \<open>getAttribute\<close> is then
  \<open>None\<close>, and calling it throws a \<open>TypeError\<close>.
\<close>

datatype element = Element
  (getAttribute: "(string \<Rightarrow> jsstring option) option")
  (textContent: jsstring)
  (href: jsstring)
  (src: jsstring)
  (querySelector: "string \<Rightarrow> error + element option")
  (querySelectorAll: "string \<Rightarrow> error + element list")

definition callGetAttribute :: "element \<Rightarrow> string \<Rightarrow> error + jsstring option" where
  "callGetAttribute el attr =
     (case getAttribute el of
        None \<Rightarrow> Inl (TypeError ''getAttribute is not a function'')
      | Some f \<Rightarrow> Inr (f attr))"

text \<open>
  What one call of \<open>generatePostId\<close> reads of the clock and of the random source:
  \<open>Date.now()\<close>, and the base-36 digits of the fraction that
  \<open>Math.random().toString(36)\<close> prints after \<open>0.\<close> (of which \<open>substr(2, 9)\<close> keeps nine).
\<close>

type_synonym draw = "nat \<times> nat list"

text \<open>
  The host of one \<open>extractPost\<close> call: the draws of its two \<open>generatePostId\<close> calls,
  \<open>window.location?.href\<close> (empty when absent), the time \<open>new Date()\<close> gives in
  milliseconds, and the text \<open>toISOString\<close> prints for a time value.
\<close>

record host =
  id_draw :: draw
  url_draw :: draw
  location_href :: jsstring
  date_now :: int
  iso :: "int \<Rightarrow> jsstring"

text \<open>
  \<open>new Date(t).toISOString()\<close> throws a \<open>RangeError\<close> for a time value beyond
  8.64e15 milliseconds from the epoch.
\<close>

definition toISOString :: "host \<Rightarrow> int \<Rightarrow> error + jsstring" where
  "toISOString h t =
     (if \<bar>t\<bar> \<le> 8640000000000000 then Inr (iso h t) else Inl (RangeError ''Invalid time value''))"

text \<open>
  The loop shared by the field extractors:
  \<^verbatim>\<open>
    for (const selector of selectors) {
      const element = postElement.querySelector(selector);
      if (element) { ... }
    }
    return dflt;
  \<close>
  \<open>body element\<close> is \<open>None\<close> when the loop goes on to the next selector and
  \<open>Some r\<close> when it returns (or throws) \<open>r\<close>.
\<close>

fun forSelectors ::
  "element \<Rightarrow> (element \<Rightarrow> (error + 'a) option) \<Rightarrow> 'a \<Rightarrow> string list \<Rightarrow> error + 'a" where
  "forSelectors postElement body dflt [] = Inr dflt"
| "forSelectors postElement body dflt (selector # selectors) =
     (case querySelector postElement selector of
        Inl e \<Rightarrow> Inl e
      | Inr None \<Rightarrow> forSelectors postElement body dflt selectors
      | Inr (Some element) \<Rightarrow>
          (case body element of
             None \<Rightarrow> forSelectors postElement body dflt selectors
           | Some r \<Rightarrow> r))"

section \<open>Post extractor\<close>

record settings =
  extractImages_setting :: bool
  extractMetrics_setting :: bool
  extractComments_setting :: bool

record extracted_author =
  ex_name :: jsstring
  ex_title :: jsstring
  ex_profileUrl :: jsstring

record extracted_metrics =
  ex_likes :: jsnumber
  ex_comments :: jsnumber
  ex_shares :: jsnumber

record extracted_post =
  ex_id :: jsstring
  ex_url :: jsstring
  ex_author :: extracted_author
  ex_content :: jsstring
  ex_timestamp :: "jsstring option"
  ex_metrics :: "extracted_metrics option"
  ex_images :: "jsstring list option"

text \<open>
  \<^verbatim>\<open>
  generatePostId(postElement) {
    if (!postElement || typeof postElement.getAttribute !== 'function') {
      return `post_${Date.now()}_${Math.random().toString(36).substr(2, 9)}`;
    }
    const urn = postElement.getAttribute('data-urn') ||
                postElement.getAttribute('data-id') ||
                postElement.getAttribute('data-activity-urn');
    if (urn) return urn;
    return `post_${Date.now()}_${Math.random().toString(36).substr(2, 9)}`;
  }
  \<close>
\<close>

definition digit36 :: "nat \<Rightarrow> nat" where
  "digit36 d = (if d < 10 then 48 + d else 87 + d)"

definition fallbackId :: "draw \<Rightarrow> jsstring" where
  "fallbackId d = js ''post_'' @ decimal (fst d) @ js ''_'' @ take 9 (map digit36 (snd d))"

text \<open>\<open>a || b || c\<close> on attribute values: the first that is neither \<open>null\<close> nor empty.\<close>

definition truthy :: "jsstring option \<Rightarrow> bool" where
  "truthy x = (case x of None \<Rightarrow> False | Some s \<Rightarrow> s \<noteq> [])"

definition nativeId :: "(string \<Rightarrow> jsstring option) \<Rightarrow> jsstring option" where
  "nativeId attr =
     (if truthy (attr ''data-urn'') then attr ''data-urn''
      else if truthy (attr ''data-id'') then attr ''data-id''
      else attr ''data-activity-urn'')"

definition generatePostId :: "draw \<Rightarrow> element option \<Rightarrow> jsstring" where
  "generatePostId d postElement =
     (case postElement of
        None \<Rightarrow> fallbackId d
      | Some el \<Rightarrow>
          (case getAttribute el of
             None \<Rightarrow> fallbackId d
           | Some attr \<Rightarrow>
               (case nativeId attr of
                  None \<Rightarrow> fallbackId d
                | Some urn \<Rightarrow> if urn \<noteq> [] then urn else fallbackId d)))"

text \<open>
  \<^verbatim>\<open>
  generatePostUrl(postElement) {
    const id = this.generatePostId(postElement);
    if (id.includes('urn:li:activity:')) {
      return `https://www.linkedin.com/feed/update/${id}`;
    }
    return window.location?.href || 'https://www.linkedin.com/feed/';
  }
  \<close>
\<close>

definition generatePostUrl :: "host \<Rightarrow> element option \<Rightarrow> jsstring" where
  "generatePostUrl h postElement =
     (let id = generatePostId (url_draw h) postElement
      in if str_includes id (js ''urn:li:activity:'') then
           js ''https://www.linkedin.com/feed/update/'' @ id
         else orElse (Some (location_href h)) (js ''https://www.linkedin.com/feed/''))"

text \<open>
  \<^verbatim>\<open>
  extractAuthorName(postElement) {
    const selectors = ['.feed-shared-actor__name', '.update-components-actor__name',
      '.feed-shared-actor__title', '[data-control-name="actor_name"]'];
    for (const selector of selectors) {
      const element = postElement.querySelector(selector);
      if (element) {
        const hiddenText = element.querySelector('.visually-hidden');
        if (hiddenText) return hiddenText.textContent.trim();
        return element.textContent.trim();
      }
    }
    return 'Unknown';
  }
  \<close>
\<close>

definition authorNameSelectors :: "string list" where
  \<open>authorNameSelectors =
     [''.feed-shared-actor__name'', ''.update-components-actor__name'',
      ''.feed-shared-actor__title'', ''[data-control-name="actor_name"]'']\<close>

definition extractAuthorName :: "element \<Rightarrow> error + jsstring" where
  "extractAuthorName postElement =
     forSelectors postElement
       (\<lambda>element. Some
          (case querySelector element ''.visually-hidden'' of
             Inl e \<Rightarrow> Inl e
           | Inr (Some hiddenText) \<Rightarrow> Inr (trim (textContent hiddenText))
           | Inr None \<Rightarrow> Inr (trim (textContent element))))
       (js ''Unknown'') authorNameSelectors"

text \<open>
  \<^verbatim>\<open>
  extractAuthorTitle(postElement) {
    const selectors = ['.feed-shared-actor__description',
      '.update-components-actor__description', '.feed-shared-actor__sub-description'];
    for (const selector of selectors) {
      const element = postElement.querySelector(selector);
      if (element) {
        const text = element.textContent.trim();
        if (text && !text.includes(BULLET) && !text.match(/\d+[mhd]/) && !text.includes('ago'))
          return text;
      }
    }
    return '';
  }
  \<close>
  \<open>BULLET\<close> stands for the three code units U+00E2, U+20AC, U+00A2 of the literal in the
  source file. \<open>matchesDigitUnit\<close> is \<open>text.match(/\d+[mhd]/)\<close> read as a truth value: some
  digit is directly followed by \<open>m\<close>, \<open>h\<close> or \<open>d\<close>.
\<close>

fun matchesDigitUnit :: "jsstring \<Rightarrow> bool" where
  "matchesDigitUnit (c # d # cs) =
     ((isDigit c \<and> (d = 109 \<or> d = 104 \<or> d = 100)) \<or> matchesDigitUnit (d # cs))"
| "matchesDigitUnit _ = False"

definition authorTitleSelectors :: "string list" where
  "authorTitleSelectors =
     [''.feed-shared-actor__description'', ''.update-components-actor__description'',
      ''.feed-shared-actor__sub-description'']"

definition extractAuthorTitle :: "element \<Rightarrow> error + jsstring" where
  "extractAuthorTitle postElement =
     forSelectors postElement
       (\<lambda>element.
          (let text = trim (textContent element)
           in if text \<noteq> [] \<and> \<not> str_includes text [226, 8364, 162] \<and> \<not> matchesDigitUnit text \<and>
                 \<not> str_includes text (js ''ago'')
              then Some (Inr text) else None))
       [] authorTitleSelectors"

text \<open>
  \<^verbatim>\<open>
  extractAuthorProfileUrl(postElement) {
    const selectors = ['.feed-shared-actor__container-link',
      '.update-components-actor__container a', '.feed-shared-actor a[href*="/in/"]',
      'a[href*="linkedin.com/in/"]'];
    for (const selector of selectors) {
      const element = postElement.querySelector(selector);
      if (element && element.href) return element.href;
    }
    return '';
  }
  \<close>
\<close>

definition authorProfileSelectors :: "string list" where
  \<open>authorProfileSelectors =
     [''.feed-shared-actor__container-link'', ''.update-components-actor__container a'',
      ''.feed-shared-actor a[href*="/in/"]'', ''a[href*="linkedin.com/in/"]'']\<close>

definition extractAuthorProfileUrl :: "element \<Rightarrow> error + jsstring" where
  "extractAuthorProfileUrl postElement =
     forSelectors postElement
       (\<lambda>element. if href element \<noteq> [] then Some (Inr (href element)) else None)
       [] authorProfileSelectors"

definition extractAuthor :: "element \<Rightarrow> error + extracted_author" where
  "extractAuthor postElement =
     andThen (extractAuthorName postElement) (\<lambda>authorName.
     andThen (extractAuthorTitle postElement) (\<lambda>authorTitle.
     andThen (extractAuthorProfileUrl postElement) (\<lambda>authorProfileUrl.
       Inr \<lparr>ex_name = authorName, ex_title = authorTitle, ex_profileUrl = authorProfileUrl\<rparr>)))"

text \<open>
  \<^verbatim>\<open>
  extractContent(postElement) {
    const selectors = ['.feed-shared-text', '.update-components-text',
      '.feed-shared-update-v2__description',
      '[data-test-id="main-feed-activity-card"] .break-words'];
    for (const selector of selectors) {
      const element = postElement.querySelector(selector);
      if (element) {
        const expandedContent = element.querySelector('.feed-shared-inline-show-more-text');
        if (expandedContent) return this.cleanContent(expandedContent.textContent);
        return this.cleanContent(element.textContent);
      }
    }
    return '';
  }
  cleanContent(text) {
    if (!text) return '';
    return text.trim().replace(/\s+/g, ' ');
  }
  \<close>
\<close>

definition cleanContent :: "jsstring \<Rightarrow> jsstring" where
  "cleanContent text = (if text = [] then [] else collapseSpaces (trim text))"

definition contentSelectorList :: "string list" where
  \<open>contentSelectorList =
     [''.feed-shared-text'', ''.update-components-text'', ''.feed-shared-update-v2__description'',
      ''[data-test-id="main-feed-activity-card"] .break-words'']\<close>

definition extractContent :: "element \<Rightarrow> error + jsstring" where
  "extractContent postElement =
     forSelectors postElement
       (\<lambda>element. Some
          (case querySelector element ''.feed-shared-inline-show-more-text'' of
             Inl e \<Rightarrow> Inl e
           | Inr (Some expandedContent) \<Rightarrow> Inr (cleanContent (textContent expandedContent))
           | Inr None \<Rightarrow> Inr (cleanContent (textContent element))))
       [] contentSelectorList"

text \<open>
  \<^verbatim>\<open>
  parseRelativeTime(timeText) {
    const now = new Date();
    const match = timeText.match(/(\d+)([mhdwy]|mo)/i);
    if (match) {
      const value = parseInt(match[1], 10);
      const unit = match[2].toLowerCase();
      switch (unit) {
        case 'm':  return new Date(now.getTime() - value * 60 * 1000).toISOString();
        case 'h':  return new Date(now.getTime() - value * 60 * 60 * 1000).toISOString();
        case 'd':  return new Date(now.getTime() - value * 24 * 60 * 60 * 1000).toISOString();
        case 'w':  return new Date(now.getTime() - value * 7 * 24 * 60 * 60 * 1000).toISOString();
        case 'mo': return new Date(now.getTime() - value * 30 * 24 * 60 * 60 * 1000).toISOString();
        case 'y':  return new Date(now.getTime() - value * 365 * 24 * 60 * 60 * 1000).toISOString();
      }
    }
    return now.toISOString();
  }
  \<close>
  \<open>matchAtHead s\<close> matches the regular expression at the first character of \<open>s\<close> and
  gives the two groups. The digits are taken greedily; giving one back leaves a digit
  where the unit must stand, so no shorter run can match. Of the alternation the class
  \<open>[mhdwy]\<close> is tried first and \<open>mo\<close> only when the class fails; the flag \<open>i\<close> lets
  the upper-case letters match too. \<open>regexMatch\<close> tries every start position from the
  left, as \<open>String.prototype.match\<close> does.
\<close>

definition matchAtHead :: "jsstring \<Rightarrow> (jsstring \<times> jsstring) option" where
  "matchAtHead s =
     (let digits = takeWhile isDigit s; rest = dropWhile isDigit s
      in if digits = [] then None
         else if rest \<noteq> [] \<and> hd (toLowerCase rest) \<in> set (js ''mhdwy'') then Some (digits, take 1 rest)
         else if prefix (js ''mo'') (toLowerCase rest) then Some (digits, take 2 rest)
         else None)"

fun regexMatch :: "jsstring \<Rightarrow> (jsstring \<times> jsstring) option" where
  "regexMatch [] = None"
| "regexMatch (c # cs) =
     (case matchAtHead (c # cs) of Some groups \<Rightarrow> Some groups | None \<Rightarrow> regexMatch cs)"

definition unitMillis :: "jsstring \<Rightarrow> int option" where
  "unitMillis unit =
     (if unit = js ''m'' then Some (60 * 1000)
      else if unit = js ''h'' then Some (60 * 60 * 1000)
      else if unit = js ''d'' then Some (24 * 60 * 60 * 1000)
      else if unit = js ''w'' then Some (7 * 24 * 60 * 60 * 1000)
      else if unit = js ''mo'' then Some (30 * 24 * 60 * 60 * 1000)
      else if unit = js ''y'' then Some (365 * 24 * 60 * 60 * 1000)
      else None)"

definition parseRelativeTime :: "host \<Rightarrow> jsstring \<Rightarrow> error + jsstring" where
  "parseRelativeTime h timeText =
     (case regexMatch timeText of
        None \<Rightarrow> toISOString h (date_now h)
      | Some (digits, letters) \<Rightarrow>
          (case unitMillis (toLowerCase letters) of
             None \<Rightarrow> toISOString h (date_now h)
           | Some millis \<Rightarrow> toISOString h (date_now h - int (digitsValue digits) * millis)))"

text \<open>
  \<^verbatim>\<open>
  extractTimestamp(postElement) {
    const selectors = ['time[datetime]', '.feed-shared-actor__sub-description time',
      '.update-components-actor__sub-description time',
      '[data-test-id="main-feed-activity-card"] time'];
    for (const selector of selectors) {
      const element = postElement.querySelector(selector);
      if (element) {
        const datetime = element.getAttribute('datetime');
        if (datetime) return datetime;
        const timeText = element.textContent.trim();
        return this.parseRelativeTime(timeText);
      }
    }
    return null;
  }
  \<close>
\<close>

definition timestampSelectors :: "string list" where
  \<open>timestampSelectors =
     [''time[datetime]'', ''.feed-shared-actor__sub-description time'',
      ''.update-components-actor__sub-description time'',
      ''[data-test-id="main-feed-activity-card"] time'']\<close>

definition extractTimestamp :: "host \<Rightarrow> element \<Rightarrow> error + jsstring option" where
  "extractTimestamp h postElement =
     forSelectors postElement
       (\<lambda>element. Some
          (andThen (callGetAttribute element ''datetime'') (\<lambda>datetime.
             if truthy datetime then Inr datetime
             else andThen (parseRelativeTime h (trim (textContent element))) (\<lambda>t. Inr (Some t)))))
       None timestampSelectors"

text \<open>
  \<^verbatim>\<open>
  parseMetricNumber(text) {
    if (!text) return 0;
    const cleanText = text.replace(/[^\d.,KMB]/gi, '');
    if (cleanText.toLowerCase().includes('k')) return Math.round(parseFloat(cleanText) * 1000);
    if (cleanText.toLowerCase().includes('m')) return Math.round(parseFloat(cleanText) * 1000000);
    if (cleanText.toLowerCase().includes('b')) return Math.round(parseFloat(cleanText) * 1000000000);
    const num = parseInt(cleanText.replace(/[,\.]/g, ''), 10);
    return isNaN(num) ? 0 : num;
  }
  \<close>
\<close>

definition isMetricChar :: "nat \<Rightarrow> bool" where
  "isMetricChar c \<longleftrightarrow> isDigit c \<or> c = 46 \<or> c = 44 \<or> c \<in> set (js ''KMBkmb'')"

definition parseMetricNumber :: "jsstring \<Rightarrow> jsnumber" where
  "parseMetricNumber text =
     (if text = [] then Num 0
      else (let cleanText = filter isMetricChar text
            in if str_includes (toLowerCase cleanText) (js ''k'') then
                 Math_round (times (parseFloat cleanText) 1000)
               else if str_includes (toLowerCase cleanText) (js ''m'') then
                 Math_round (times (parseFloat cleanText) 1000000)
               else if str_includes (toLowerCase cleanText) (js ''b'') then
                 Math_round (times (parseFloat cleanText) 1000000000)
               else (case parseInt (filter (\<lambda>c. c \<noteq> 44 \<and> c \<noteq> 46) cleanText) of
                       NaN \<Rightarrow> Num 0
                     | Num n \<Rightarrow> Num n)))"

text \<open>
  \<open>extractLikes\<close>, \<open>extractComments\<close> and \<open>extractShares\<close> are the same loop over their
  own selector lists: the text of the first element found is parsed, and the count is 0
  when no selector matches.
\<close>

definition extractCount :: "string list \<Rightarrow> element \<Rightarrow> error + jsnumber" where
  "extractCount selectors postElement =
     forSelectors postElement
       (\<lambda>element. Some (Inr (parseMetricNumber (trim (textContent element)))))
       (Num 0) selectors"

definition likesSelectors :: "string list" where
  \<open>likesSelectors =
     [''.social-counts-reactions__count'',
      ''.social-counts-reactions .social-counts-reactions__count'',
      ''[data-test-id="social-actions-bar"] button[aria-label*="like"]'']\<close>

definition commentsSelectors :: "string list" where
  \<open>commentsSelectors =
     [''.social-counts-comments'',
      ''[data-test-id="social-actions-bar"] button[aria-label*="comment"]'']\<close>

definition sharesSelectors :: "string list" where
  \<open>sharesSelectors =
     [''.social-counts-shares'',
      ''[data-test-id="social-actions-bar"] button[aria-label*="share"]'']\<close>

definition extractLikes :: "element \<Rightarrow> error + jsnumber" where
  "extractLikes = extractCount likesSelectors"

definition extractComments :: "element \<Rightarrow> error + jsnumber" where
  "extractComments = extractCount commentsSelectors"

definition extractShares :: "element \<Rightarrow> error + jsnumber" where
  "extractShares = extractCount sharesSelectors"

definition extractMetrics :: "element \<Rightarrow> error + extracted_metrics" where
  "extractMetrics postElement =
     andThen (extractLikes postElement) (\<lambda>likes.
     andThen (extractComments postElement) (\<lambda>comments.
     andThen (extractShares postElement) (\<lambda>shares.
       Inr \<lparr>ex_likes = likes, ex_comments = comments, ex_shares = shares\<rparr>)))"

text \<open>
  \<^verbatim>\<open>
  extractImages(postElement) {
    const images = [];
    const imageElements = postElement.querySelectorAll('img[src]');
    imageElements.forEach((img) => {
      if (img.src && !img.src.includes('data:image') && !img.src.includes('spacer.gif'))
        images.push(img.src);
    });
    return images;
  }
  \<close>
\<close>

definition extractImages :: "element \<Rightarrow> error + jsstring list" where
  "extractImages postElement =
     andThen (querySelectorAll postElement ''img[src]'') (\<lambda>imageElements.
       Inr (map src
              (filter (\<lambda>img. src img \<noteq> [] \<and> \<not> str_includes (src img) (js ''data:image'') \<and>
                              \<not> str_includes (src img) (js ''spacer.gif''))
                 imageElements)))"

text \<open>
  \<^verbatim>\<open>
  extractPost(postElement) {
    try {
      if (!postElement) throw new Error('Post element is null or undefined');
      const postData = {
        id: this.generatePostId(postElement),
        url: this.generatePostUrl(postElement),
        author: this.extractAuthor(postElement),
        content: this.extractContent(postElement),
        timestamp: this.extractTimestamp(postElement)
      };
      if (this.settings.extractMetrics) postData.metrics = this.extractMetrics(postElement);
      if (this.settings.extractImages) postData.images = this.extractImages(postElement);
      return postData;
    } catch (error) {
      console.error('Error extracting post data:', error);
      return null;
    }
  }
  \<close>
  \<open>extractPost_try\<close> is the body of the \<open>try\<close> block; \<open>extractPost\<close> is the whole
  function, \<open>None\<close> being \<open>null\<close>.
\<close>

definition extractPost_try :: "settings \<Rightarrow> host \<Rightarrow> element option \<Rightarrow> error + extracted_post" where
  "extractPost_try s h postElement =
     (case postElement of
        None \<Rightarrow> Inl (Error ''Post element is null or undefined'')
      | Some el \<Rightarrow>
          (let id = generatePostId (id_draw h) postElement;
               url = generatePostUrl h postElement
           in andThen (extractAuthor el) (\<lambda>author.
              andThen (extractContent el) (\<lambda>content.
              andThen (extractTimestamp h el) (\<lambda>timestamp.
              andThen (if extractMetrics_setting s
                       then andThen (extractMetrics el) (\<lambda>m. Inr (Some m)) else Inr None) (\<lambda>metrics.
              andThen (if extractImages_setting s
                       then andThen (extractImages el) (\<lambda>i. Inr (Some i)) else Inr None) (\<lambda>images.
                Inr \<lparr>ex_id = id, ex_url = url, ex_author = author, ex_content = content,
                     ex_timestamp = timestamp, ex_metrics = metrics, ex_images = images\<rparr>)))))))"

definition extractPost :: "settings \<Rightarrow> host \<Rightarrow> element option \<Rightarrow> extracted_post option" where
  "extractPost s h postElement =
     (case extractPost_try s h postElement of Inl error \<Rightarrow> None | Inr postData \<Rightarrow> Some postData)"

section \<open>Selector registry\<close>

text \<open>
  The selector tables of \<open>LinkedInSelectors\<close>: a property is an array of selector
  strings or an object of further properties. \<open>instanceProperties\<close> are the tables the
  constructor stores on \<open>this\<close>, read by \<open>this[type + 'Selectors']\<close>.
\<close>

datatype sel = SelString string | SelArray "string list" | SelObject "(string \<times> sel) list"

definition postSelectors :: "string list" where
  \<open>postSelectors =
     [''div[data-id^="urn:li:activity"]'', ''.feed-shared-update-v2'', ''.occludable-update'',
      ''article[data-id]'']\<close>

definition contentSelectors :: "(string \<times> sel) list" where
  \<open>contentSelectors =
     [(''text'', SelArray
         [''.feed-shared-text .break-words'', ''.feed-shared-update-v2__description .break-words'',
          ''.feed-shared-text__text-view'', ''.feed-shared-inline-show-more-text .break-words'']),
      (''author'', SelObject
         [(''name'', SelArray
             [''.feed-shared-actor__name .visually-hidden'', ''.feed-shared-actor__name'',
              ''.update-components-actor__name .visually-hidden'',
              ''.update-components-actor__name'']),
          (''profile'', SelArray
             [''.feed-shared-actor__container-link'',
              ''.update-components-actor__container .app-aware-link'',
              ''.feed-shared-actor a[href*="/in/"]'']),
          (''image'', SelArray
             [''.feed-shared-actor__avatar .EntityPhoto-circle-3'',
              ''.feed-shared-actor__avatar img'', ''.update-components-actor__avatar img''])]),
      (''metrics'', SelObject
         [(''likes'', SelArray
             [''.social-counts-reactions__count'',
              ''.feed-shared-social-action-bar__reaction-count'',
              ''button[aria-label*="reaction"] .visually-hidden'']),
          (''comments'', SelArray
             [''.social-counts-comments .social-counts-comments__count'',
              ''button[aria-label*="comment"] .visually-hidden'',
              ''.feed-shared-social-action-bar__comment-count'']),
          (''shares'', SelArray
             [''.social-counts-shares .social-counts-shares__count'',
              ''button[aria-label*="repost"] .visually-hidden'',
              ''.feed-shared-social-action-bar__repost-count''])]),
      (''media'', SelObject
         [(''images'', SelArray
             [''.feed-shared-image img'', ''.feed-shared-mini-update-v2 img'',
              ''.feed-shared-carousel__content img'', ''.update-components-image img'']),
          (''videos'', SelArray
             [''.feed-shared-video video'', ''.feed-shared-mini-update-v2 video'',
              ''.update-components-video video'']),
          (''documents'', SelArray
             [''.feed-shared-document'', ''.feed-shared-mini-update-v2__document'',
              ''.update-components-document''])]),
      (''timestamp'', SelArray
         [''.feed-shared-actor__sub-description .visually-hidden'',
          ''.feed-shared-actor__sub-description time'',
          ''.update-components-actor__sub-description time'', ''time[datetime]'']),
      (''postUrl'', SelArray
         [''.feed-shared-control-menu__trigger'', ''.feed-shared-actor__container-link'',
          ''a[href*="/posts/"]''])]\<close>

definition savedPostsSelectors :: "(string \<times> sel) list" where
  \<open>savedPostsSelectors =
     [(''container'', SelArray
         [''.saved-items'', ''.my-items-saved'', ''[data-view-name="saved-items"]'']),
      (''posts'', SelArray [''.saved-item'', ''.my-items-saved__item'', ''.saved-items__item''])]\<close>

definition navigationSelectors :: "(string \<times> sel) list" where
  \<open>navigationSelectors =
     [(''savedPostsPage'', SelArray [''a[href*="/my-items/saved-posts/"]'', ''a[href*="/saved/"]'']),
      (''feedPage'', SelArray [''.feed-container'', ''.scaffold-layout__main''])]\<close>

definition loadingSelectors :: "(string \<times> sel) list" where
  "loadingSelectors =
     [(''spinner'', SelArray
         [''.feed-shared-update-v2__loader'', ''.artdeco-spinner'', ''.loading-spinner'']),
      (''loadMore'', SelArray
         [''.scaffold-finite-scroll__load-button'', ''.feed-shared-update-v2__load-more''])]"

definition instanceProperties :: "(string \<times> sel) list" where
  "instanceProperties =
     [(''postSelectors'', SelArray postSelectors),
      (''contentSelectors'', SelObject contentSelectors),
      (''savedPostsSelectors'', SelObject savedPostsSelectors),
      (''navigationSelectors'', SelObject navigationSelectors),
      (''loadingSelectors'', SelObject loadingSelectors)]"

text \<open>
  \<^verbatim>\<open>
  getAllSelectors(type, subtype = null) {
    if (subtype) {
      const parts = subtype.split('.');
      let current = this.contentSelectors[type];
      for (const part of parts) {
        if (current && typeof current === 'object' && current[part]) current = current[part];
        else { current = null; break; }
      }
      if (current) return Array.isArray(current) ? current : [current];
    }
    if (this.contentSelectors[type])
      return Array.isArray(this.contentSelectors[type])
        ? this.contentSelectors[type] : [this.contentSelectors[type]];
    if (this[type + 'Selectors'])
      return Array.isArray(this[type + 'Selectors'])
        ? this[type + 'Selectors'] : [this[type + 'Selectors']];
    return [];
  }
  \<close>
  \<open>lookupProp\<close> is \<open>current[part]\<close> for the named properties of an object; the index
  and \<open>length\<close> properties of an array are not modelled (no caller passes them).
  \<open>walk\<close> is the loop over the parts, \<open>asArray x\<close> is
  \<open>Array.isArray(x) ? x : [x]\<close>.
\<close>

function splitDot :: "string \<Rightarrow> string list" where
  "splitDot s =
     (if CHR ''.'' \<in> set s
      then takeWhile (\<lambda>c. c \<noteq> CHR ''.'') s # splitDot (tl (dropWhile (\<lambda>c. c \<noteq> CHR ''.'') s))
      else [s])"
  by pat_completeness auto
termination
proof (relation "measure length")
  fix s :: string
  assume "CHR ''.'' \<in> set s"
  then have "dropWhile (\<lambda>c. c \<noteq> CHR ''.'') s \<noteq> []" by auto
  then have "length (tl (dropWhile (\<lambda>c. c \<noteq> CHR ''.'') s)) < length (dropWhile (\<lambda>c. c \<noteq> CHR ''.'') s)"
    by (cases "dropWhile (\<lambda>c. c \<noteq> CHR ''.'') s") simp_all
  also have "\<dots> \<le> length s" by (rule length_dropWhile_le)
  finally show "(tl (dropWhile (\<lambda>c. c \<noteq> CHR ''.'') s), s) \<in> measure length" by simp
qed simp

declare splitDot.simps [simp del]

fun lookupProp :: "sel \<Rightarrow> string \<Rightarrow> sel option" where
  "lookupProp (SelObject props) key = map_of props key"
| "lookupProp (SelArray xs) key = None"
| "lookupProp (SelString s) key = None"

fun walk :: "sel option \<Rightarrow> string list \<Rightarrow> sel option" where
  "walk current [] = current"
| "walk current (part # parts) =
     (case current of
        None \<Rightarrow> None
      | Some c \<Rightarrow> (case lookupProp c part of None \<Rightarrow> None | Some v \<Rightarrow> walk (Some v) parts))"

fun asArray :: "sel \<Rightarrow> sel list" where
  "asArray (SelArray xs) = map SelString xs"
| "asArray x = [x]"

definition getAllSelectors :: "string \<Rightarrow> string option \<Rightarrow> sel list" where
  "getAllSelectors type subtype =
     (let viaSubtype =
            (case subtype of
               None \<Rightarrow> None
             | Some st \<Rightarrow> if st = [] then None else walk (map_of contentSelectors type) (splitDot st))
      in case viaSubtype of
           Some current \<Rightarrow> asArray current
         | None \<Rightarrow>
             (case map_of contentSelectors type of
                Some x \<Rightarrow> asArray x
              | None \<Rightarrow>
                  (case map_of instanceProperties (type @ ''Selectors'') of
                     Some x \<Rightarrow> asArray x
                   | None \<Rightarrow> [])))"

text \<open>
  \<^verbatim>\<open>
  findElement(container, type, subtype = null) {
    const selectors = this.getAllSelectors(type, subtype);
    for (const selector of selectors) {
      const element = container.querySelector(selector);
      if (element) return element;
    }
    return null;
  }
  \<close>
  \<open>querySelector\<close> converts its argument to a string: an object becomes
  \<open>[object Object]\<close>, an array its entries joined by commas.
\<close>

fun joinComma :: "string list \<Rightarrow> string" where
  "joinComma [] = []"
| "joinComma [x] = x"
| "joinComma (x # y # ys) = x @ '','' @ joinComma (y # ys)"

fun selectorText :: "sel \<Rightarrow> string" where
  "selectorText (SelString s) = s"
| "selectorText (SelArray xs) = joinComma xs"
| "selectorText (SelObject props) = ''[object Object]''"

definition findElement :: "element \<Rightarrow> string \<Rightarrow> string option \<Rightarrow> error + element option" where
  "findElement container type subtype =
     forSelectors container (\<lambda>element. Some (Inr (Some element))) None
       (map selectorText (getAllSelectors type subtype))"

text \<open>
  \<^verbatim>\<open>
  simpleHash(str) {
    let hash = 0;
    for (let i = 0; i < str.length; i++) {
      const char = str.charCodeAt(i);
      hash = ((hash << 5) - hash) + char;
      hash = hash & hash; // Convert to 32-bit integer
    }
    return Math.abs(hash).toString(36);
  }
  \<close>
  The hash is a signed 32-bit integer after every round, so the round is computed on
  32-bit words.
\<close>

fun toString36 :: "nat \<Rightarrow> jsstring" where
  "toString36 n = (if n < 36 then [digit36 n] else toString36 (n div 36) @ [digit36 (n mod 36)])"

declare toString36.simps [simp del]

definition hashRound :: "32 word \<Rightarrow> nat \<Rightarrow> 32 word" where
  "hashRound hash char = (push_bit 5 hash - hash) + of_nat char"

definition simpleHash :: "jsstring \<Rightarrow> jsstring" where
  "simpleHash str = toString36 (nat \<bar>sint (foldl hashRound 0 str)\<bar>)"

text \<open>
  \<^verbatim>\<open>
  getPostId(postElement) {
    const dataId = postElement.getAttribute('data-id');
    if (dataId) return dataId;
    const urlElement = this.findElement(postElement, 'content', 'postUrl');
    if (urlElement && urlElement.href) {
      const match = urlElement.href.match(/\/posts\/([^/?]+)/);
      if (match) return match[1];
    }
    const textElement = this.findElement(postElement, 'content', 'text');
    if (textElement) {
      const text = textElement.textContent.trim();
      return 'post_' + this.simpleHash(text);
    }
    return null;
  }
  \<close>
  \<open>postsSlug href\<close> is the group of the first match of \<open>/\/posts\/([^/?]+)/\<close>.
\<close>

definition slugChars :: "jsstring \<Rightarrow> jsstring" where
  "slugChars s = takeWhile (\<lambda>c. c \<noteq> 47 \<and> c \<noteq> 63) s"

fun postsSlug :: "jsstring \<Rightarrow> jsstring option" where
  "postsSlug [] = None"
| "postsSlug (c # cs) =
     (if prefix (js ''/posts/'') (c # cs) \<and> slugChars (drop 7 (c # cs)) \<noteq> []
      then Some (slugChars (drop 7 (c # cs)))
      else postsSlug cs)"

definition getPostId :: "element \<Rightarrow> error + jsstring option" where
  "getPostId postElement =
     andThen (callGetAttribute postElement ''data-id'') (\<lambda>dataId.
       if truthy dataId then Inr dataId
       else andThen (findElement postElement ''content'' (Some ''postUrl'')) (\<lambda>urlElement.
         case (case urlElement of
                 None \<Rightarrow> None
               | Some u \<Rightarrow> if href u \<noteq> [] then postsSlug (href u) else None) of
           Some slug \<Rightarrow> Inr (Some slug)
         | None \<Rightarrow>
             andThen (findElement postElement ''content'' (Some ''text'')) (\<lambda>textElement.
               case textElement of
                 Some t \<Rightarrow> Inr (Some (js ''post_'' @ simpleHash (trim (textContent t))))
               | None \<Rightarrow> Inr None)))"

section \<open>Example pages\<close>

text \<open>
  Elements used to run the extractor: an element with no attributes and no
  descendants; a post carrying \<open>data-urn\<close>; a post carrying \<open>data-id\<close> only; the
  object of the unit test \<open>should handle DOM exceptions gracefully\<close>, which has only a
  \<open>querySelector\<close> that throws; and a post whose author-name element is present with
  empty text.
\<close>

definition emptyElement :: element where
  "emptyElement = Element (Some (\<lambda>a. None)) [] [] [] (\<lambda>s. Inr None) (\<lambda>s. Inr [])"

definition urnPost :: element where
  "urnPost =
     Element (Some (\<lambda>a. if a = ''data-urn'' then Some (js ''urn:li:activity:123456789'') else None))
       [] [] [] (\<lambda>s. Inr None) (\<lambda>s. Inr [])"

definition dataIdPost :: element where
  "dataIdPost =
     Element (Some (\<lambda>a. if a = ''data-id'' then Some (js ''urn:li:activity:42'') else None))
       [] [] [] (\<lambda>s. Inr None) (\<lambda>s. Inr [])"

definition throwingMock :: element where
  "throwingMock =
     Element None [] [] [] (\<lambda>s. Inl (Error ''DOM error''))
       (\<lambda>s. Inl (TypeError ''querySelectorAll is not a function''))"

definition blankNamePost :: element where
  "blankNamePost =
     Element (Some (\<lambda>a. None)) [] [] []
       (\<lambda>s. if s = ''.feed-shared-actor__name'' then Inr (Some emptyElement) else Inr None)
       (\<lambda>s. Inr [])"

definition exampleHost :: host where
  "exampleHost =
     \<lparr>id_draw = (1700000000000, [4, 15, 35]), url_draw = (1700000000001, [7]),
      location_href = js ''https://www.linkedin.com/feed/'', date_now = 1700000000000,
      iso = (\<lambda>t. decimal (nat t))\<rparr>"

definition defaultSettings :: settings where
  "defaultSettings =
     \<lparr>extractImages_setting = True, extractMetrics_setting = True, extractComments_setting = False\<rparr>"

section \<open>DOM scanner\<close>

text \<open>
  The fields of a \<open>DOMScanner\<close> that a scan reads and writes: \<open>isScanning\<close>,
  \<open>scanProgress\<close> and \<open>extractedPosts\<close>. Two more fields record what the scan does to
  its surroundings: \<open>events\<close> is the list of the scanner's events dispatched on the
  document so far, oldest first (\<open>linkedinScanStarted\<close>, \<open>linkedinScanProgress\<close> with
  the progress and the extracted count, \<open>linkedinScanStopped\<close> and
  \<open>linkedinScanCompleted\<close> with the extracted count, \<open>linkedinScanError\<close>, and
  \<open>linkedinPageChanged\<close>), and \<open>ticks\<close> counts the points at which the scan has
  awaited a timer or the storage, where other handlers of the page can run.
\<close>

record progress =
  current :: nat
  total :: nat

datatype scan_event =
    ScanStarted
  | ScanProgress progress nat
  | ScanStopped nat
  | ScanCompleted nat
  | ScanError error
  | PageChanged

record scanner =
  isScanning :: bool
  scanProgress :: progress
  extractedPosts :: "post_data list"
  events :: "scan_event list"
  ticks :: nat

text \<open>
  The options of the caller and the stored preferences. A count is a natural number; a
  missing option is \<open>None\<close>.
\<close>

record caller_options =
  opt_maxPosts :: "nat option"
  opt_includeImages :: "bool option"
  opt_includeVideos :: "bool option"
  opt_scrollToLoad :: "bool option"
  opt_postTypes :: "post_type list option"
  opt_authorFilter :: "jsstring option"

record preferences =
  maxPostsPerScan :: "nat option"
  pref_includeImages :: bool
  pref_includeVideos :: bool

record scan_options =
  maxPosts :: nat
  includeImages :: bool
  includeVideos :: bool
  scrollToLoad :: bool
  postTypes :: "post_type list option"
  authorFilter :: "jsstring option"

text \<open>
  The surroundings of one scan. \<open>'p\<close> is the type of post containers. \<open>findAllPosts\<close> of
  the source queries the document, removes duplicates and keeps the valid posts; the
  list it returns is the page's: \<open>initialPosts\<close> at the start of the scan, then one
  entry of \<open>rediscovered\<close> for each scroll of the load-more phase, and the last list
  again once these are used up (the page has stopped changing).
  \<open>extractPostData\<close> is the extractor handed to the constructor: it may throw or return
  nothing. \<open>calls k\<close> lists, in order, the calls that other handlers of the page make
  on the scanner while the scan waits at its \<open>k\<close>-th await (counted from 0): the Stop
  button and the \<open>stopScan\<close> message call \<open>stopScan()\<close>, the URL watcher and
  \<open>popstate\<close> call \<open>handlePageChange()\<close>, clearing the results calls
  \<open>clearExtractedPosts()\<close> (the overlay also does so from its handler of
  \<open>linkedinPageChanged\<close>, on a page that is neither the feed nor the saved posts:
  that call is the entry after \<open>CallHandlePageChange\<close>), the Start button and the
  \<open>startScan\<close> message call \<open>startScan()\<close>, and the teardown of the content script
  calls \<open>cleanup()\<close>.
\<close>

datatype page_call =
    CallStopScan
  | CallHandlePageChange
  | CallClearExtractedPosts
  | CallStartScan
  | CallCleanup

record 'p page =
  getSettings :: "error + preferences"
  initialPosts :: "'p list"
  rediscovered :: "'p list list"
  extractPostData :: "'p \<Rightarrow> error + post_data option"
  calls :: "nat \<Rightarrow> page_call list"
  savePosts :: "post_data list \<Rightarrow> error + unit"

text \<open>
  \<^verbatim>\<open>
  dispatchScanEvent(eventType, detail) { ... document.dispatchEvent(event); }
  stopScan() {
    if (this.isScanning) {
      this.isScanning = false;
      this.dispatchScanEvent('scanStopped', { extractedCount: this.extractedPosts.length });
    }
  }
  handlePageChange() {
    this.isScanning = false;
    this.scanProgress = { current: 0, total: 0 };
    const event = new CustomEvent('linkedinPageChanged', { detail: ... });
    document.dispatchEvent(event);
  }
  clearExtractedPosts() {
    this.extractedPosts = [];
    this.scanProgress = { current: 0, total: 0 };
  }
  cleanup() {
    this.observers.forEach(observer => observer.disconnect());
    this.observers = [];
    this.isScanning = false;
  }
  async startScan(options = {}) {
    if (this.isScanning) { throw new Error('Scan already in progress'); }
    try {
      this.isScanning = true;
      this.extractedPosts = [];
      const settings = await this.storage.getSettings();
      ...
  \<close>
  The mutation observers that \<open>cleanup\<close> disconnects return at once while
  \<open>isScanning\<close> is set and write none of the scanner's fields; they are left out.
  \<open>startScan_enter\<close> is the part of \<open>startScan\<close> that runs before its first
  \<open>await\<close>: the guard, which throws with the scanner untouched, and the two
  assignments.

  \<open>await\<close> is a point where the scan waits (\<open>await this.delay(ms)\<close>, \<open>await\<close> on the
  storage): the tick is counted and the calls that the page makes on the scanner
  meanwhile are run in order. Of a \<open>startScan()\<close> made meanwhile the part before its
  first \<open>await\<close> runs at that point; when the guard throws, the call leaves the
  scanner as it is. The later rounds of such a second scan belong to its own call and
  are not followed by the scan that is waiting.
\<close>

definition dispatchScanEvent :: "scan_event \<Rightarrow> scanner \<Rightarrow> scanner" where
  "dispatchScanEvent e s = s\<lparr>events := events s @ [e]\<rparr>"

definition stopScan :: "scanner \<Rightarrow> scanner" where
  "stopScan s =
     (if isScanning s
      then dispatchScanEvent (ScanStopped (length (extractedPosts s))) (s\<lparr>isScanning := False\<rparr>)
      else s)"

definition handlePageChange :: "scanner \<Rightarrow> scanner" where
  "handlePageChange s =
     dispatchScanEvent PageChanged
       (s\<lparr>isScanning := False, scanProgress := \<lparr>current = 0, total = 0\<rparr>\<rparr>)"

definition clearExtractedPosts :: "scanner \<Rightarrow> scanner" where
  "clearExtractedPosts s = s\<lparr>extractedPosts := [], scanProgress := \<lparr>current = 0, total = 0\<rparr>\<rparr>"

definition cleanup :: "scanner \<Rightarrow> scanner" where
  "cleanup s = s\<lparr>isScanning := False\<rparr>"

definition startScan_enter :: "scanner \<Rightarrow> error + scanner" where
  "startScan_enter s =
     (if isScanning s then Inl (Error ''Scan already in progress'')
      else Inr (s\<lparr>isScanning := True, extractedPosts := []\<rparr>))"

fun runCall :: "page_call \<Rightarrow> scanner \<Rightarrow> scanner" where
  "runCall CallStopScan s = stopScan s"
| "runCall CallHandlePageChange s = handlePageChange s"
| "runCall CallClearExtractedPosts s = clearExtractedPosts s"
| "runCall CallStartScan s = (case startScan_enter s of Inl error \<Rightarrow> s | Inr s' \<Rightarrow> s')"
| "runCall CallCleanup s = cleanup s"

definition await :: "'p page \<Rightarrow> scanner \<Rightarrow> scanner" where
  "await env s = fold runCall (calls env (ticks s)) (s\<lparr>ticks := ticks s + 1\<rparr>)"

text \<open>
  \<^verbatim>\<open>
  shouldIncludePost(postData, options) {
    if (!options.includeImages && postData.media.images.length > 0) return false;
    if (!options.includeVideos && postData.media.videos.length > 0) return false;
    if (options.postTypes && !options.postTypes.includes(postData.postType)) return false;
    if (options.authorFilter &&
        !postData.author.name.toLowerCase().includes(options.authorFilter.toLowerCase()))
      return false;
    return true;
  }
  \<close>
  Reading \<open>media.images\<close> of a record without \<open>media\<close>, or \<open>author.name\<close> of a record
  without \<open>author\<close>, throws a \<open>TypeError\<close>.
\<close>

definition mediaCount :: "(media_data \<Rightarrow> media_entry list) \<Rightarrow> post_data \<Rightarrow> error + nat" where
  "mediaCount f postData =
     (case post_media postData of
        None \<Rightarrow> Inl (TypeError ''Cannot read properties of undefined'')
      | Some m \<Rightarrow> Inr (length (f m)))"

definition authorMatches :: "jsstring \<Rightarrow> post_data \<Rightarrow> error + bool" where
  "authorMatches wanted postData =
     (case post_author postData of
        None \<Rightarrow> Inl (TypeError ''Cannot read properties of undefined'')
      | Some a \<Rightarrow> Inr (str_includes (toLowerCase (author_name a)) (toLowerCase wanted)))"

definition shouldIncludePost :: "post_data \<Rightarrow> scan_options \<Rightarrow> error + bool" where
  "shouldIncludePost postData options =
     andThen (if includeImages options then Inr 0 else mediaCount media_images postData) (\<lambda>images.
       if 0 < images then Inr False
       else andThen (if includeVideos options then Inr 0 else mediaCount media_videos postData) (\<lambda>videos.
         if 0 < videos then Inr False
         else if (case postTypes options of
                    None \<Rightarrow> False
                  | Some types \<Rightarrow> post_postType postData \<notin> set types) then Inr False
         else (case authorFilter options of
                 None \<Rightarrow> Inr True
               | Some wanted \<Rightarrow>
                   if wanted = [] then Inr True
                   else andThen (authorMatches wanted postData) (\<lambda>found. Inr found))))"

text \<open>
  \<^verbatim>\<open>
  async processBatch(postElements, options) {
    for (const postElement of postElements) {
      if (!this.isScanning) break;
      try {
        const postData = this.extractor.extractPostData(postElement);
        if (postData && this.shouldIncludePost(postData, options)) {
          this.extractedPosts.push(postData);
          if (this.extractedPosts.length >= options.maxPosts) break;
        }
      } catch (error) { this.errorHandler.handleWarning(...); }
    }
  }
  \<close>
  The calls of the error handler only write to its log and are left out.
\<close>

fun processBatch :: "'p page \<Rightarrow> 'p list \<Rightarrow> scan_options \<Rightarrow> scanner \<Rightarrow> scanner" where
  "processBatch env [] options s = s"
| "processBatch env (postElement # postElements) options s =
     (if \<not> isScanning s then s
      else case extractPostData env postElement of
             Inl error \<Rightarrow> processBatch env postElements options s
           | Inr None \<Rightarrow> processBatch env postElements options s
           | Inr (Some postData) \<Rightarrow>
               (case shouldIncludePost postData options of
                  Inl error \<Rightarrow> processBatch env postElements options s
                | Inr False \<Rightarrow> processBatch env postElements options s
                | Inr True \<Rightarrow>
                    (let s' = s\<lparr>extractedPosts := extractedPosts s @ [postData]\<rparr>
                     in if maxPosts options \<le> length (extractedPosts s') then s'
                        else processBatch env postElements options s')))"

text \<open>
  The loop over the initial posts in \<open>startScan\<close>:
  \<^verbatim>\<open>
    const batchSize = 5;
    for (let i = 0; i < initialPosts.length && this.extractedPosts.length < scanOptions.maxPosts;
         i += batchSize) {
      const batch = initialPosts.slice(i, i + batchSize);
      await this.processBatch(batch, scanOptions);
      this.scanProgress.current = Math.min(this.extractedPosts.length, this.scanProgress.total);
      this.dispatchScanEvent('scanProgress',
        { progress: this.scanProgress, extractedCount: this.extractedPosts.length });
      await this.delay(100);
    }
  \<close>
  \<open>batchWork\<close> is one round of the loop up to its \<open>await this.delay(100)\<close>, and
  \<open>batchStep\<close> the whole round. The condition of the loop does not read
  \<open>isScanning\<close>: after a \<open>stopScan()\<close> or a \<open>handlePageChange()\<close> the loop goes on,
  \<open>processBatch\<close> extracts nothing and every round still reports.
\<close>

definition reportProgress :: "scanner \<Rightarrow> scanner" where
  "reportProgress s =
     dispatchScanEvent (ScanProgress (scanProgress s) (length (extractedPosts s))) s"

definition batchWork :: "'p page \<Rightarrow> scan_options \<Rightarrow> 'p list \<Rightarrow> scanner \<Rightarrow> scanner" where
  "batchWork env scanOptions batch s =
     (let s1 = processBatch env batch scanOptions s;
          s2 = s1\<lparr>scanProgress := (scanProgress s1)
                  \<lparr>current := min (length (extractedPosts s1)) (total (scanProgress s1))\<rparr>\<rparr>
      in reportProgress s2)"

definition batchStep :: "'p page \<Rightarrow> scan_options \<Rightarrow> 'p list \<Rightarrow> scanner \<Rightarrow> scanner" where
  "batchStep env scanOptions batch s = await env (batchWork env scanOptions batch s)"

function batchLoop :: "'p page \<Rightarrow> scan_options \<Rightarrow> 'p list \<Rightarrow> nat \<Rightarrow> scanner \<Rightarrow> scanner" where
  "batchLoop env scanOptions posts i s =
     (if i < length posts \<and> length (extractedPosts s) < maxPosts scanOptions
      then batchLoop env scanOptions posts (i + 5)
             (batchStep env scanOptions (take 5 (drop i posts)) s)
      else s)"
  by pat_completeness auto
termination
  by (relation "measure (\<lambda>(env, scanOptions, posts, i, s). length posts - i)") auto

declare batchLoop.simps [simp del]

text \<open>
  \<^verbatim>\<open>
  async loadMorePosts(options) {
    const maxScrollAttempts = 5;
    let scrollAttempts = 0;
    let lastPostCount = this.extractedPosts.length;
    while (scrollAttempts < maxScrollAttempts &&
           this.extractedPosts.length < options.maxPosts && this.isScanning) {
      window.scrollTo(0, document.body.scrollHeight);
      await this.delay(2000);
      const newPosts = this.findAllPosts();
      const unprocessedPosts = newPosts.slice(lastPostCount);
      if (unprocessedPosts.length > 0) {
        await this.processBatch(unprocessedPosts, options);
        this.scanProgress.total = Math.min(newPosts.length, options.maxPosts);
        this.scanProgress.current = Math.min(this.extractedPosts.length, this.scanProgress.total);
        this.dispatchScanEvent('scanProgress',
          { progress: this.scanProgress, extractedCount: this.extractedPosts.length });
        lastPostCount = newPosts.length;
        scrollAttempts = 0;
      } else {
        scrollAttempts++;
      }
    }
  }
  \<close>
  \<open>loadMoreLoop env options snapshots shown scrollAttempts lastPostCount\<close> is the
  loop: \<open>snapshots\<close> are the lists \<open>findAllPosts\<close> has yet to return and \<open>shown\<close> is the
  list it returned last. The loop ends: every round uses up a snapshot, or else raises
  \<open>lastPostCount\<close> to the length of the list shown, or else counts an attempt.
\<close>

definition nextPosts :: "'p list list \<Rightarrow> 'p list \<Rightarrow> 'p list" where
  "nextPosts snapshots shown = (case snapshots of [] \<Rightarrow> shown | newPosts # later \<Rightarrow> newPosts)"

definition loadMoreReport :: "'p page \<Rightarrow> scan_options \<Rightarrow> 'p list \<Rightarrow> nat \<Rightarrow> scanner \<Rightarrow> scanner" where
  "loadMoreReport env options newPosts lastPostCount s =
     (let s1 = processBatch env (drop lastPostCount newPosts) options s;
          s2 = s1\<lparr>scanProgress := (scanProgress s1)\<lparr>total := min (length newPosts) (maxPosts options)\<rparr>\<rparr>;
          s3 = s2\<lparr>scanProgress := (scanProgress s2)
                  \<lparr>current := min (length (extractedPosts s2)) (total (scanProgress s2))\<rparr>\<rparr>
      in reportProgress s3)"

function loadMoreLoop ::
  "'p page \<Rightarrow> scan_options \<Rightarrow> 'p list list \<Rightarrow> 'p list \<Rightarrow> nat \<Rightarrow> nat \<Rightarrow> scanner \<Rightarrow> scanner" where
  "loadMoreLoop env options snapshots shown scrollAttempts lastPostCount s =
     (if scrollAttempts < 5 \<and> length (extractedPosts s) < maxPosts options \<and> isScanning s
      then (let s1 = await env s;
                newPosts = nextPosts snapshots shown
            in if 0 < length (drop lastPostCount newPosts)
               then loadMoreLoop env options (tl snapshots) newPosts 0 (length newPosts)
                      (loadMoreReport env options newPosts lastPostCount s1)
               else loadMoreLoop env options (tl snapshots) newPosts (scrollAttempts + 1)
                      lastPostCount s1)
      else s)"
  by pat_completeness auto
termination
  by (relation "measures
        [\<lambda>(env, options, snapshots, shown, scrollAttempts, lastPostCount, s). length snapshots,
         \<lambda>(env, options, snapshots, shown, scrollAttempts, lastPostCount, s).
           length shown - lastPostCount,
         \<lambda>(env, options, snapshots, shown, scrollAttempts, lastPostCount, s).
           5 - scrollAttempts]")
     (auto simp: nextPosts_def split: list.splits)

declare loadMoreLoop.simps [simp del]

definition loadMorePosts :: "'p page \<Rightarrow> scan_options \<Rightarrow> scanner \<Rightarrow> scanner" where
  "loadMorePosts env options s =
     loadMoreLoop env options (rediscovered env) (initialPosts env) 0 (length (extractedPosts s)) s"

text \<open>
  \<^verbatim>\<open>
  async startScan(options = {}) {
    if (this.isScanning) throw new Error('Scan already in progress');
    try {
      this.isScanning = true;
      this.extractedPosts = [];
      const settings = await this.storage.getSettings();
      const scanOptions = {
        maxPosts: options.maxPosts || settings.scanningPreferences.maxPostsPerScan || 100,
        includeImages: options.includeImages !== undefined
          ? options.includeImages : settings.scanningPreferences.includeImages,
        includeVideos: options.includeVideos !== undefined
          ? options.includeVideos : settings.scanningPreferences.includeVideos,
        scrollToLoad: options.scrollToLoad !== undefined ? options.scrollToLoad : true,
        ...options
      };
      this.dispatchScanEvent('scanStarted', { options: scanOptions });
      const initialPosts = this.findAllPosts();
      this.scanProgress.total = Math.min(initialPosts.length, scanOptions.maxPosts);
      (the loop over the initial posts)
      if (scanOptions.scrollToLoad && this.extractedPosts.length < scanOptions.maxPosts)
        await this.loadMorePosts(scanOptions);
      await this.storage.savePosts(this.extractedPosts);
      this.dispatchScanEvent('scanCompleted', { posts: ..., totalExtracted: ... });
      return this.extractedPosts;
    } catch (error) {
      this.errorHandler.handleError('DOM Scanner', error);
      this.dispatchScanEvent('scanError', { error: error.message });
      throw error;
    } finally {
      this.isScanning = false;
    }
  }
  \<close>
  In \<open>mergeOptions\<close> the spread \<open>...options\<close> writes a \<open>maxPosts\<close> the caller gave over
  the merged value, also when it is 0. \<open>scanEnter\<close> is the start of the scan proper: the
  \<open>scanStarted\<close> event and the first total. \<open>startScan\<close> returns what the promise
  settles to, with the scanner as the call leaves it.
\<close>

definition orNat :: "nat option \<Rightarrow> nat \<Rightarrow> nat" where
  "orNat x d = (case x of None \<Rightarrow> d | Some n \<Rightarrow> if n = 0 then d else n)"

definition mergeOptions :: "caller_options \<Rightarrow> preferences \<Rightarrow> scan_options" where
  "mergeOptions options prefs =
     \<lparr>maxPosts = (case opt_maxPosts options of
                    Some given \<Rightarrow> given
                  | None \<Rightarrow> orNat (opt_maxPosts options) (orNat (maxPostsPerScan prefs) 100)),
      includeImages = (case opt_includeImages options of
                         Some b \<Rightarrow> b | None \<Rightarrow> pref_includeImages prefs),
      includeVideos = (case opt_includeVideos options of
                         Some b \<Rightarrow> b | None \<Rightarrow> pref_includeVideos prefs),
      scrollToLoad = (case opt_scrollToLoad options of Some b \<Rightarrow> b | None \<Rightarrow> True),
      postTypes = opt_postTypes options,
      authorFilter = opt_authorFilter options\<rparr>"

definition failScan :: "error \<Rightarrow> scanner \<Rightarrow> (error + post_data list) \<times> scanner" where
  "failScan error s = (Inl error, (dispatchScanEvent (ScanError error) s)\<lparr>isScanning := False\<rparr>)"

definition scanEnter :: "'p page \<Rightarrow> scan_options \<Rightarrow> scanner \<Rightarrow> scanner" where
  "scanEnter env scanOptions s =
     (let s1 = dispatchScanEvent ScanStarted s
      in s1\<lparr>scanProgress := (scanProgress s1)
              \<lparr>total := min (length (initialPosts env)) (maxPosts scanOptions)\<rparr>\<rparr>)"

definition scanBody :: "'p page \<Rightarrow> scan_options \<Rightarrow> scanner \<Rightarrow> scanner" where
  "scanBody env scanOptions s =
     (let s2 = scanEnter env scanOptions s;
          s3 = batchLoop env scanOptions (initialPosts env) 0 s2
      in if scrollToLoad scanOptions \<and> length (extractedPosts s3) < maxPosts scanOptions
         then loadMorePosts env scanOptions s3 else s3)"

definition startScan ::
  "'p page \<Rightarrow> caller_options \<Rightarrow> scanner \<Rightarrow> (error + post_data list) \<times> scanner" where
  "startScan env options s =
     (case startScan_enter s of
        Inl error \<Rightarrow> (Inl error, s)
      | Inr s0 \<Rightarrow>
          (let s1 = await env s0
           in case getSettings env of
                Inl error \<Rightarrow> failScan error s1
              | Inr prefs \<Rightarrow>
                  (let s2 = scanBody env (mergeOptions options prefs) s1;
                       saved = savePosts env (extractedPosts s2);
                       s3 = await env s2
                   in case saved of
                        Inl error \<Rightarrow> failScan error s3
                      | Inr ok \<Rightarrow>
                          (Inr (extractedPosts s3),
                           (dispatchScanEvent (ScanCompleted (length (extractedPosts s3))) s3)
                             \<lparr>isScanning := False\<rparr>))))"

section \<open>Progress reports of a scan\<close>

text \<open>
  The progress reports among a list of events, each as \<open>(current, total,
  extractedCount)\<close>; the reports a \<open>startScan\<close> call dispatches are those behind the
  events that were there before.
\<close>

fun reportsOf :: "scan_event list \<Rightarrow> (nat \<times> nat \<times> nat) list" where
  "reportsOf [] = []"
| "reportsOf (ScanProgress p n # es) = (current p, total p, n) # reportsOf es"
| "reportsOf (e # es) = reportsOf es"

definition scanReports :: "'p page \<Rightarrow> caller_options \<Rightarrow> scanner \<Rightarrow> (nat \<times> nat \<times> nat) list" where
  "scanReports env options s =
     reportsOf (drop (length (events s)) (events (snd (startScan env options s))))"

section \<open>Example scans\<close>

text \<open>
  Pages whose post containers are numbered. On all of them the extractor throws on the
  containers 1 and 2 and returns a record for every other one, and the stored
  preferences allow 100 posts with images and videos.
  \<^item> \<open>shrinkingPage\<close> shows four posts at the start and the three posts 0, 3, 4 after
    the first scroll; nothing else calls the scanner during the scan.
  \<^item> \<open>growingPage\<close> shows the same four posts and a fifth after the first scroll;
    nothing else calls the scanner.
  \<^item> \<open>navigatingPage\<close> shows six posts, all of which can be extracted, so that the
    scan has two batches; while the scan waits after its first batch (its await
    number 1) the URL watcher calls \<open>handlePageChange()\<close>.
  \<^item> \<open>stoppingPage\<close> shows the same six posts; while the scan waits after its first
    batch the user presses Stop: \<open>stopScan()\<close>.
  \<^item> \<open>restartPage\<close> shows the same six posts; while the scan waits after its first
    batch the user presses Stop and then Start: \<open>stopScan()\<close>, then \<open>startScan()\<close>.
\<close>

definition examplePost :: "nat \<Rightarrow> post_data" where
  "examplePost k =
     \<lparr>post_id = Some (decimal k), post_url = [], post_author = None, post_content = None,
      post_metrics = formatMetrics None, post_media = None, post_postType = TypeText\<rparr>"

definition examplePreferences :: preferences where
  "examplePreferences =
     \<lparr>maxPostsPerScan = Some 100, pref_includeImages = True, pref_includeVideos = True\<rparr>"

definition exampleExtractor :: "nat \<Rightarrow> error + post_data option" where
  "exampleExtractor k =
     (if k = 1 \<or> k = 2 then Inl (Error ''extraction failed'') else Inr (Some (examplePost k)))"

definition shrinkingPage :: "nat page" where
  "shrinkingPage =
     \<lparr>getSettings = Inr examplePreferences, initialPosts = [0, 1, 2, 3],
      rediscovered = [[0, 3, 4]], extractPostData = exampleExtractor,
      calls = (\<lambda>k. []), savePosts = (\<lambda>posts. Inr ())\<rparr>"

definition growingPage :: "nat page" where
  "growingPage =
     \<lparr>getSettings = Inr examplePreferences, initialPosts = [0, 1, 2, 3],
      rediscovered = [[0, 1, 2, 3, 4]], extractPostData = exampleExtractor,
      calls = (\<lambda>k. []), savePosts = (\<lambda>posts. Inr ())\<rparr>"

definition navigatingPage :: "nat page" where
  "navigatingPage =
     \<lparr>getSettings = Inr examplePreferences, initialPosts = [0, 3, 4, 5, 6, 7],
      rediscovered = [], extractPostData = exampleExtractor,
      calls = (\<lambda>k. if k = 1 then [CallHandlePageChange] else []),
      savePosts = (\<lambda>posts. Inr ())\<rparr>"

definition stoppingPage :: "nat page" where
  "stoppingPage =
     \<lparr>getSettings = Inr examplePreferences, initialPosts = [0, 3, 4, 5, 6, 7],
      rediscovered = [], extractPostData = exampleExtractor,
      calls = (\<lambda>k. if k = 1 then [CallStopScan] else []),
      savePosts = (\<lambda>posts. Inr ())\<rparr>"

definition restartPage :: "nat page" where
  "restartPage =
     \<lparr>getSettings = Inr examplePreferences, initialPosts = [0, 3, 4, 5, 6, 7],
      rediscovered = [], extractPostData = exampleExtractor,
      calls = (\<lambda>k. if k = 1 then [CallStopScan, CallStartScan] else []),
      savePosts = (\<lambda>posts. Inr ())\<rparr>"

definition noOptions :: caller_options where
  "noOptions =
     \<lparr>opt_maxPosts = None, opt_includeImages = None, opt_includeVideos = None,
      opt_scrollToLoad = None, opt_postTypes = None, opt_authorFilter = None\<rparr>"

definition idleScanner :: scanner where
  "idleScanner =
     \<lparr>isScanning = False, scanProgress = \<lparr>current = 0, total = 0\<rparr>, extractedPosts = [],
      events = [], ticks = 0\<rparr>"

text \<open>
  \<open>busyScanner\<close> is the scanner in the middle of the scan of these six posts, when
  the scan is about to wait after its first batch: five posts are extracted, the
  report \<open>5 of 6\<close> has been dispatched, the sixth post is still to be processed, and
  the scan has awaited once (the settings).
\<close>

definition busyScanner :: scanner where
  "busyScanner =
     \<lparr>isScanning = True, scanProgress = \<lparr>current = 5, total = 6\<rparr>,
      extractedPosts = [examplePost 0, examplePost 3, examplePost 4, examplePost 5, examplePost 6],
      events = [ScanStarted, ScanProgress \<lparr>current = 5, total = 6\<rparr> 5], ticks = 1\<rparr>"

section \<open>Example records\<close>

text \<open>
  A raw record whose content is a string, as \<open>formatContent\<close> documents it
  (\<open>@param {string} content\<close>), that mentions a poll; it has an id, an author with a
  name, and no media.
\<close>

definition pollPost :: raw_post where
  "pollPost =
     \<lparr>raw_id = Some (js ''p1''), raw_url = None,
      raw_author = Some \<lparr>raw_name = Some (js ''Al''), raw_profile = None, raw_image = None,
                          raw_title = None, raw_company = None\<rparr>,
      raw_content = Some (ContentString (js ''Vote in my poll'')),
      raw_metrics = None, raw_media = None\<rparr>"

section \<open>Verification\<close>

subsection \<open>\<open>sanitizeString\<close> and idempotence (C10)\<close>

lemma isWhiteSpace_32: "isWhiteSpace 32" by (simp add: isWhiteSpace_def)

lemma collapse_chars: "c \<in> set (collapseSpaces xs) \<Longrightarrow> c = 32 \<or> (c \<in> set xs \<and> \<not> isWhiteSpace c)"
proof (induction xs rule: collapseSpaces.induct)
  case 1
  then show ?case by simp
next
  case (2 d ds)
  then show ?case
    by (auto split: if_splits dest: set_dropWhileD)
qed

lemma dropWhile_collapse_hd:
  "ys = [] \<or> \<not> isWhiteSpace (hd ys) \<Longrightarrow> dropWhile isWhiteSpace (collapseSpaces ys) = collapseSpaces ys"
  by (cases ys) auto

lemma dropWhile_hd: "dropWhile P xs = [] \<or> \<not> P (hd (dropWhile P xs))"
  by (induction xs) auto

lemma collapse_idem: "collapseSpaces (collapseSpaces xs) = collapseSpaces xs"
proof (induction xs rule: collapseSpaces.induct)
  case 1
  then show ?case by simp
next
  case (2 c cs)
  then show ?case by (simp add: isWhiteSpace_32 dropWhile_collapse_hd [OF dropWhile_hd [of isWhiteSpace cs]])
qed

lemma dropWhile_last: "xs \<noteq> [] \<Longrightarrow> \<not> P (last xs) \<Longrightarrow> dropWhile P xs \<noteq> [] \<and> last (dropWhile P xs) = last xs"
  by (induction xs) (auto split: if_splits)

lemma collapse_last: "xs \<noteq> [] \<Longrightarrow> \<not> isWhiteSpace (last xs) \<Longrightarrow> collapseSpaces xs \<noteq> [] \<and> last (collapseSpaces xs) = last xs"
proof (induction xs rule: collapseSpaces.induct)
  case 1
  then show ?case by simp
next
  case (2 c cs)
  show ?case
  proof (cases "isWhiteSpace c")
    case True
    with 2 have ne: "cs \<noteq> []" by auto
    with 2 have l: "\<not> isWhiteSpace (last cs)" by simp
    from dropWhile_last [of cs isWhiteSpace] ne l
    have d1: "dropWhile isWhiteSpace cs \<noteq> []" and d2: "last (dropWhile isWhiteSpace cs) = last cs" by blast+
    have "\<not> isWhiteSpace (last (dropWhile isWhiteSpace cs))" using d2 l by simp
    from 2(1) [OF True d1 this] d2
    have "collapseSpaces (dropWhile isWhiteSpace cs) \<noteq> []"
      and "last (collapseSpaces (dropWhile isWhiteSpace cs)) = last cs" by simp_all
    then show ?thesis using True ne by simp
  next
    case False
    then show ?thesis using 2 by (cases cs) auto
  qed
qed

lemma dropWhile_id_hd: "ys \<noteq> [] \<Longrightarrow> \<not> P (hd ys) \<Longrightarrow> dropWhile P ys = ys"
  by (cases ys) auto

lemma trim_id: "xs = [] \<or> (\<not> isWhiteSpace (hd xs) \<and> \<not> isWhiteSpace (last xs)) \<Longrightarrow> trim xs = xs"
proof (cases "xs = []")
  case True
  then show ?thesis by (simp add: trim_def)
next
  case False
  assume "xs = [] \<or> (\<not> isWhiteSpace (hd xs) \<and> \<not> isWhiteSpace (last xs))"
  with False have h: "\<not> isWhiteSpace (hd xs)" and l: "\<not> isWhiteSpace (last xs)" by auto
  from h False have d: "dropWhile isWhiteSpace xs = xs" by (rule dropWhile_id_hd [rotated])
  have "hd (rev xs) = last xs" using False by (simp add: hd_rev)
  with l False have "dropWhile isWhiteSpace (rev xs) = rev xs"
    by (intro dropWhile_id_hd) simp_all
  with d show ?thesis by (simp add: trim_def)
qed

lemma trim_ends: "trim s = [] \<or> (\<not> isWhiteSpace (hd (trim s)) \<and> \<not> isWhiteSpace (last (trim s)))"
proof -
  let ?d = "dropWhile isWhiteSpace s"
  let ?r = "dropWhile isWhiteSpace (rev ?d)"
  show ?thesis
  proof (cases "?r = []")
    case True
    then show ?thesis unfolding trim_def by (simp only: rev.simps simp_thms)
  next
    case False
    with dropWhile_hd [of isWhiteSpace "rev ?d"] have l: "\<not> isWhiteSpace (hd ?r)" by blast
    have dne: "?d \<noteq> []"
    proof
      assume a: "?d = []"
      have "?r = []" unfolding a by simp
      with False show False ..
    qed
    with dropWhile_hd [of isWhiteSpace s] have hd_d: "\<not> isWhiteSpace (hd ?d)" by blast
    have rne: "rev ?d \<noteq> []" using dne by (simp only: rev_is_Nil_conv not_False_eq_True)
    have "last (rev ?d) = hd ?d" using dne by (simp only: last_rev)
    with hd_d have "\<not> isWhiteSpace (last (rev ?d))" by simp
    with rne have "last ?r = last (rev ?d)" using dropWhile_last [of "rev ?d" isWhiteSpace] by blast
    then have "last ?r = hd ?d" using dne by (simp only: last_rev)
    then have "hd (rev ?r) = hd ?d" using False by (simp only: hd_rev)
    moreover have "last (rev ?r) = hd ?r" using False by (simp only: last_rev)
    ultimately show ?thesis using l hd_d unfolding trim_def by (simp only: simp_thms)
  qed
qed

lemma set_trim: "set (trim s) \<subseteq> set s"
proof
  fix x assume "x \<in> set (trim s)"
  then have "x \<in> set (dropWhile isWhiteSpace (rev (dropWhile isWhiteSpace s)))"
    by (simp add: trim_def)
  then have "x \<in> set (rev (dropWhile isWhiteSpace s))" by (rule set_dropWhileD)
  then have "x \<in> set (dropWhile isWhiteSpace s)" by simp
  then show "x \<in> set s" by (rule set_dropWhileD)
qed

lemma collapse_trim_ends:
  "collapseSpaces (trim s) = [] \<or>
   (\<not> isWhiteSpace (hd (collapseSpaces (trim s))) \<and> \<not> isWhiteSpace (last (collapseSpaces (trim s))))"
proof (cases "trim s = []")
  case True
  then show ?thesis by simp
next
  case False
  with trim_ends [of s] have h: "\<not> isWhiteSpace (hd (trim s))" and l: "\<not> isWhiteSpace (last (trim s))"
    by blast+
  from False h have "hd (collapseSpaces (trim s)) = hd (trim s)" by (cases "trim s") auto
  with collapse_last [OF False l] h l show ?thesis by simp
qed

lemma sanitize_clean:
  assumes "list_all (\<lambda>c. isWhiteSpace c \<or> isPrintable c) s"
    and "length (collapseSpaces (trim s)) \<le> 10000"
    and "s \<noteq> []"
  shows "sanitizeString s = collapseSpaces (trim s)"
proof -
  let ?t = "collapseSpaces (trim s)"
  have chars: "c = 32 \<or> (isPrintable c \<and> \<not> isWhiteSpace c)" if "c \<in> set ?t" for c
  proof -
    from collapse_chars [OF that] set_trim [of s]
    have "c = 32 \<or> (c \<in> set s \<and> \<not> isWhiteSpace c)" by blast
    with assms(1) show ?thesis by (auto simp: list_all_iff)
  qed
  have m: "map (\<lambda>c. if isLineBreakOrTab c then 32 else c) ?t = ?t"
  proof (rule map_idI)
    fix c assume "c \<in> set ?t"
    from chars [OF this] show "(if isLineBreakOrTab c then 32 else c) = c"
      by (auto simp: isLineBreakOrTab_def isWhiteSpace_def)
  qed
  have "isPrintable c" if "c \<in> set ?t" for c
    using chars [OF that] by (auto simp: isPrintable_def)
  then have f: "filter isPrintable ?t = ?t" by simp
  from assms(2,3) show ?thesis by (simp add: sanitizeString_def m f)
qed

text \<open>
  Claim C10, as amended. \<open>sanitizeString\<close> is idempotent on every string all of whose
  code units are white space or lie in the printable range kept by the last filter, and
  whose trimmed and collapsed form has at most 10000 code units (so nothing is cut off):
  sanitising the result a second time leaves it unchanged.
\<close>

theorem sanitizeString_idempotent_on_clean:
  assumes "list_all (\<lambda>c. isWhiteSpace c \<or> isPrintable c) s"
    and "length (collapseSpaces (trim s)) \<le> 10000"
  shows "sanitizeString (sanitizeString s) = sanitizeString s"
proof (cases "s = []")
  case True
  then show ?thesis by (simp add: sanitizeString_def)
next
  case False
  let ?t = "collapseSpaces (trim s)"
  have st: "sanitizeString s = ?t" using assms False by (rule sanitize_clean)
  have tt: "trim ?t = ?t" using collapse_trim_ends [of s] by (rule trim_id)
  have ct: "collapseSpaces ?t = ?t" by (rule collapse_idem)
  show ?thesis
  proof (cases "?t = []")
    case True
    with st show ?thesis by (simp add: sanitizeString_def)
  next
    case ne: False
    have "list_all (\<lambda>c. isWhiteSpace c \<or> isPrintable c) ?t"
    proof -
      have "isWhiteSpace c \<or> isPrintable c" if "c \<in> set ?t" for c
      proof -
        from collapse_chars [OF that] set_trim [of s]
        have "c = 32 \<or> c \<in> set s" by blast
        with assms(1) show ?thesis by (auto simp: list_all_iff isWhiteSpace_32)
      qed
      then show ?thesis by (simp add: list_all_iff)
    qed
    moreover have "length (collapseSpaces (trim ?t)) \<le> 10000" using assms(2) by (simp add: tt ct)
    ultimately have "sanitizeString ?t = collapseSpaces (trim ?t)" using ne by (rule sanitize_clean)
    with st show ?thesis by (simp add: tt ct)
  qed
qed

text \<open>
  Witness for C10: the string \<open>" Hi\t\n!\u00A0"\<close> satisfies both hypotheses, is
  sanitised to \<open>"Hi !"\<close>, and a second pass changes nothing.
\<close>

theorem sanitizeString_idempotent_on_clean_witness:
  "list_all (\<lambda>c. isWhiteSpace c \<or> isPrintable c) [32, 72, 105, 9, 10, 33, 160] \<and>
   length (collapseSpaces (trim [32, 72, 105, 9, 10, 33, 160])) \<le> 10000 \<and>
   sanitizeString [32, 72, 105, 9, 10, 33, 160] = [72, 105, 32, 33] \<and>
   sanitizeString (sanitizeString [32, 72, 105, 9, 10, 33, 160]) = sanitizeString [32, 72, 105, 9, 10, 33, 160]"
proof -
  have a: "list_all (\<lambda>c. isWhiteSpace c \<or> isPrintable c) [32, 72, 105, 9, 10, 33, 160]"
    by (simp add: isWhiteSpace_def isPrintable_def)
  have b: "collapseSpaces (trim [32, 72, 105, 9, 10, 33, 160]) = [72, 105, 32, 33]"
    by (simp add: trim_def isWhiteSpace_def)
  have c: "length (collapseSpaces (trim [32, 72, 105, 9, 10, 33, 160])) \<le> 10000"
    by (simp add: b)
  have d: "sanitizeString [32, 72, 105, 9, 10, 33, 160] = [72, 105, 32, 33]"
    by (simp add: sanitizeString_def b isPrintable_def isLineBreakOrTab_def)
  from a c d sanitizeString_idempotent_on_clean [OF a c] show ?thesis by simp
qed

text \<open>
  Counterexample to C10 as stated: in \<open>"a \x01 b"\<close> the control character U+0001 sits
  between two spaces. The white-space collapse runs before the control character is
  removed, so the first pass yields \<open>"a  b"\<close> with two adjacent spaces, and the second
  pass collapses them to \<open>"a b"\<close>.
\<close>

theorem sanitizeString_not_idempotent:
  "sanitizeString [97, 32, 1, 32, 98] = [97, 32, 32, 98] \<and>
   sanitizeString (sanitizeString [97, 32, 1, 32, 98]) = [97, 32, 98] \<and>
   sanitizeString (sanitizeString [97, 32, 1, 32, 98]) \<noteq> sanitizeString [97, 32, 1, 32, 98]"
  by (simp add: sanitizeString_def trim_def isWhiteSpace_def isPrintable_def isLineBreakOrTab_def)

text \<open>
  The cut at 10000 code units is the second way a second pass can change the text: the
  9999 letters \<open>a\<close> followed by \<open>" b"\<close> are cut behind the space, and the second
  pass trims it.
\<close>

lemma collapse_replicate:
  "\<not> isWhiteSpace c \<Longrightarrow> collapseSpaces (replicate n c @ xs) = replicate n c @ collapseSpaces xs"
  by (induction n) simp_all

lemma nonspace_97: "\<not> isWhiteSpace 97" "\<not> isWhiteSpace 98" "isPrintable 97" "isPrintable 98" "isPrintable 32"
  "\<not> isLineBreakOrTab 97" "\<not> isLineBreakOrTab 98" "\<not> isLineBreakOrTab 32"
  by (simp_all add: isWhiteSpace_def isPrintable_def isLineBreakOrTab_def)

lemma sanitize_long:
  "sanitizeString (replicate 9999 97 @ [32, 98]) = replicate 9999 97 @ [32]"
proof -
  let ?s = "replicate 9999 97 @ [32, 98 :: nat]"
  have "trim ?s = ?s" by (rule trim_id) (simp add: nonspace_97 hd_append)
  moreover have "collapseSpaces ?s = ?s"
    by (simp add: collapse_replicate nonspace_97 isWhiteSpace_32)
  moreover have "map (\<lambda>c. if isLineBreakOrTab c then 32 else c) ?s = ?s"
    by (rule map_idI) (auto simp: nonspace_97)
  moreover have "filter isPrintable ?s = ?s"
    by (rule filter_True) (auto simp: nonspace_97)
  moreover have "take 10000 ?s = replicate 9999 97 @ [32]" by simp
  ultimately show ?thesis by (simp add: sanitizeString_def)
qed

lemma sanitize_long_again:
  "sanitizeString (replicate 9999 97 @ [32]) = replicate 9999 97"
proof -
  let ?s = "replicate 9999 97 @ [32 :: nat]"
  let ?r = "replicate 9999 (97 :: nat)"
  have "dropWhile isWhiteSpace ?s = ?s"
    by (rule dropWhile_id_hd) (simp_all add: nonspace_97 hd_append)
  moreover have "rev ?s = 32 # ?r" by simp
  moreover have "dropWhile isWhiteSpace (32 # ?r) = ?r"
    using dropWhile_id_hd [of ?r isWhiteSpace] by (simp add: isWhiteSpace_32 nonspace_97)
  ultimately have t: "trim ?s = ?r" by (simp add: trim_def)
  have c: "collapseSpaces ?r = ?r" using collapse_replicate [of 97 9999 "[]"] by (simp add: nonspace_97)
  show ?thesis by (simp add: sanitizeString_def t c nonspace_97)
qed

lemma sanitizeString_cut_not_idempotent:
  "sanitizeString (sanitizeString (replicate 9999 97 @ [32, 98])) \<noteq>
   sanitizeString (replicate 9999 97 @ [32, 98])"
proof -
  have "length (replicate 9999 (97::nat)) \<noteq> length (replicate 9999 (97::nat) @ [32])" by simp
  then have "replicate 9999 (97::nat) \<noteq> replicate 9999 97 @ [32]" by fastforce
  then show ?thesis by (simp add: sanitize_long sanitize_long_again)
qed

subsection \<open>\<open>parseNumber\<close> (C5)\<close>

lemma floor_rat_numeral:
  "\<lfloor>(numeral a / numeral b :: rat)\<rfloor> = (numeral a div numeral b :: int)"
  using floor_divide_of_int_eq [of "numeral a" "numeral b", where ?'a = rat] by simp

lemmas parse_defs =
  js_def toLowerCase_def parseFloat_def parseInt_def isWhiteSpace_def isDigit_def
  digitsValue_def pow10_def floor_rat_numeral

text \<open>
  The examples the specification lists: \<open>parseNumber("1.2K") = 1200\<close>,
  \<open>parseNumber("5M") = 5000000\<close>, \<open>parseNumber("1,234") = 1234\<close>,
  \<open>parseNumber("") = 0\<close> and \<open>parseNumber(null) = 0\<close>; and a number is returned
  unchanged.
\<close>

lemma parseNumber_examples:
  "parseNumber (JString (js ''1.2K'')) = Num 1200"
  "parseNumber (JString (js ''5M'')) = Num 5000000"
  "parseNumber (JString (js ''1,234'')) = Num 1234"
  "parseNumber (JString (js '''')) = Num 0"
  "parseNumber JNull = Num 0"
  by (simp_all add: parseNumber_def parse_defs)

lemma parseNumber_number: "parseNumber (JNumber n) = n"
  by (simp add: parseNumber_def)

text \<open>
  Claim C5 fails on the code: \<open>parseNumber("abc")\<close> is \<open>NaN\<close>, not 0. The text
  contains the letter b, so the billions branch is taken; \<open>parseFloat("abc")\<close> is
  \<open>NaN\<close>, and \<open>Math.round(NaN * 1000000000)\<close> is returned without the \<open>isNaN\<close>
  test that guards the last branch.
\<close>

theorem parseNumber_unparsable_is_NaN:
  "parseNumber (JString (js ''abc'')) = NaN"
  by (simp add: parseNumber_def parse_defs)

subsection \<open>\<open>determinePostType\<close> (C9)\<close>

lemma str_includes_iff: "str_includes s sub \<longleftrightarrow> (\<exists>pre suf. s = pre @ sub @ suf)"
proof (induction s)
  case Nil
  then show ?case by auto
next
  case (Cons c cs)
  show ?case
  proof
    assume "str_includes (c # cs) sub"
    then consider "prefix sub (c # cs)" | "str_includes cs sub" by auto
    then show "\<exists>pre suf. c # cs = pre @ sub @ suf"
    proof cases
      case 1
      then obtain suf where "c # cs = sub @ suf" by (auto simp: prefix_def)
      then have "c # cs = [] @ sub @ suf" by simp
      then show ?thesis by blast
    next
      case 2
      with Cons obtain pre suf where "cs = pre @ sub @ suf" by blast
      then have "c # cs = (c # pre) @ sub @ suf" by simp
      then show ?thesis by blast
    qed
  next
    assume "\<exists>pre suf. c # cs = pre @ sub @ suf"
    then obtain pre suf where e: "c # cs = pre @ sub @ suf" by blast
    show "str_includes (c # cs) sub"
    proof (cases pre)
      case Nil
      with e have "prefix sub (c # cs)" by (simp add: prefix_def)
      then show ?thesis by simp
    next
      case (Cons d pre')
      with e have "cs = pre' @ sub @ suf" by simp
      with Cons.IH have "str_includes cs sub" by blast
      then show ?thesis by simp
    qed
  qed
qed

lemma lengthOf_mediaList:
  "greaterThan (lengthOf f p) 0 \<longleftrightarrow> mediaList f p \<noteq> []"
  "greaterThan (lengthOf f p) 1 \<longleftrightarrow> 1 < length (mediaList f p)"
  "lengthOf f p = Some 1 \<longleftrightarrow> length (mediaList f p) = 1"
  by (auto simp: greaterThan_def lengthOf_def mediaList_def split: option.splits)

text \<open>
  The chain of tests of \<open>determinePostType\<close>, in the order of the code: any video
  gives \<open>video\<close>; else more than one image gives \<open>carousel\<close>; else exactly one image
  gives \<open>image\<close>; else any document gives \<open>document\<close>; else a \<open>text\<close> property of the
  content, read by \<open>postData.content?.text\<close>, that contains \<open>poll\<close> gives \<open>poll\<close>; else
  \<open>text\<close>. A record with one video and three images resolves to \<open>video\<close>.
\<close>

lemma determinePostType_chain:
  "determinePostType postData =
     (if mediaList raw_videos postData \<noteq> [] then TypeVideo
      else if 1 < length (mediaList raw_images postData) then TypeCarousel
      else if length (mediaList raw_images postData) = 1 then TypeImage
      else if mediaList raw_documents postData \<noteq> [] then TypeDocument
      else if (\<exists>t pre suf. textOf postData = Some t \<and> t = pre @ js ''poll'' @ suf) then TypePoll
      else TypeText) \<and>
   determinePostType
     (postData\<lparr>raw_media := Some \<lparr>raw_images = Some [i1, i2, i3], raw_videos = Some [v],
                                  raw_documents = d\<rparr>\<rparr>) = TypeVideo"
proof -
  have poll: "(case textOf postData of None \<Rightarrow> False | Some t \<Rightarrow> str_includes t (js ''poll'')) \<longleftrightarrow>
        (\<exists>t pre suf. textOf postData = Some t \<and> t = pre @ js ''poll'' @ suf)"
    by (cases "textOf postData") (simp_all add: str_includes_iff)
  have "determinePostType
     (postData\<lparr>raw_media := Some \<lparr>raw_images = Some [i1, i2, i3], raw_videos = Some [v],
                                  raw_documents = d\<rparr>\<rparr>) = TypeVideo"
    by (simp add: determinePostType_def greaterThan_def lengthOf_def)
  then show ?thesis
    unfolding determinePostType_def lengthOf_mediaList poll by simp
qed

text \<open>
  The content of a record is a string: \<open>formatContent\<close> takes it as one, and a
  string has no \<open>text\<close> property. So a record whose content is a string, or is
  missing, is never a poll, whatever its text says; and since \<open>formatPostData\<close>
  returns \<open>null\<close> for a content that is an object, no record that it returns has the
  type \<open>poll\<close>.
\<close>

lemma determinePostType_string_content:
  "raw_content postData = Some (ContentString s) \<Longrightarrow> determinePostType postData \<noteq> TypePoll"
  by (simp add: determinePostType_def textOf_def)

lemma formatPostData_never_poll:
  "formatPostData validUrl rawPostData = Some formatted \<Longrightarrow> post_postType formatted \<noteq> TypePoll"
  by (auto simp: formatPostData_def formatPostData_try_def buildFormatted_def andThen_def
      formatContent_def determinePostType_def textOf_def
      split: option.splits sum.splits raw_content.splits if_splits)

text \<open>
  Claim C9 fails on the code at the poll rule: the record \<open>pollPost\<close> has no media
  and the content \<open>Vote in my poll\<close>, a string that contains \<open>poll\<close>, and
  \<open>determinePostType\<close> resolves it to \<open>text\<close>, not to \<open>poll\<close>; \<open>formatPostData\<close>
  returns it with the type \<open>text\<close>.
\<close>

theorem determinePostType_string_poll_is_text:
  "raw_content pollPost = Some (ContentString (js ''Vote in my poll'')) \<and>
   str_includes (js ''Vote in my poll'') (js ''poll'') \<and>
   determinePostType pollPost = TypeText \<and>
   map_option post_postType (formatPostData validUrl (Some pollPost)) = Some TypeText"
  by (simp add: pollPost_def determinePostType_def textOf_def lengthOf_def greaterThan_def
      formatPostData_def formatPostData_try_def buildFormatted_def andThen_def
      validatePostData_def formatContent_def formatAuthorData_def formatMediaData_def Let_def
      sanitizeString_def trim_def js_def isWhiteSpace_def isPrintable_def isLineBreakOrTab_def)

subsection \<open>\<open>validatePostData\<close> and \<open>formatPostData\<close> (C6)\<close>

lemma validatePostData_fails_iff: "isl (validatePostData p) \<longleftrightarrow> validationFails p"
  by (auto simp: validatePostData_def validationFails_def mediaPresent_def split: option.splits)

text \<open>
  Claim C6. \<open>validatePostData\<close> fails exactly when \<open>id\<close>, \<open>author\<close> or \<open>content\<close> is
  falsy, when \<open>author.name\<close> is falsy, or when \<open>content.text\<close> is empty and no media
  is present. \<open>formatPostData\<close> returns a value for every raw record, never an
  exception: it is \<open>null\<close> when building the formatted record throws and when
  validation fails on the formatted record, and the formatted record otherwise. So a
  record that fails validation yields \<open>null\<close> for that record alone.
\<close>

theorem validatePostData_formatPostData:
  "(isl (validatePostData postData) \<longleftrightarrow> validationFails postData) \<and>
   formatPostData validUrl rawPostData =
     (case buildFormatted validUrl rawPostData of
        Inl error \<Rightarrow> None
      | Inr formatted \<Rightarrow> if validationFails formatted then None else Some formatted)"
proof -
  have "formatPostData validUrl rawPostData =
     (case buildFormatted validUrl rawPostData of
        Inl error \<Rightarrow> None
      | Inr formatted \<Rightarrow> if validationFails formatted then None else Some formatted)"
  proof (cases "buildFormatted validUrl rawPostData")
    case (Inl e)
    then show ?thesis by (simp add: formatPostData_def formatPostData_try_def andThen_def)
  next
    case (Inr f)
    then show ?thesis
      using validatePostData_fails_iff [of f]
      by (cases "validatePostData f")
         (simp_all add: formatPostData_def formatPostData_try_def andThen_def)
  qed
  with validatePostData_fails_iff show ?thesis by blast
qed

text \<open>
  Two runs of \<open>formatPostData\<close>: a record whose author name is blank fails validation
  and yields \<open>null\<close>; the same record with the name \<open>Al\<close> is formatted; and a missing
  record yields \<open>null\<close>.
\<close>

lemma formatPostData_examples:
  "formatPostData validUrl
     (Some \<lparr>raw_id = Some (js ''p1''), raw_url = None,
            raw_author = Some \<lparr>raw_name = Some (js '' ''), raw_profile = None, raw_image = None,
                                raw_title = None, raw_company = None\<rparr>,
            raw_content = Some (ContentString (js ''hi'')), raw_metrics = None,
            raw_media = None\<rparr>) = None"
  "formatPostData validUrl
     (Some \<lparr>raw_id = Some (js ''p1''), raw_url = None,
            raw_author = Some \<lparr>raw_name = Some (js ''Al''), raw_profile = None, raw_image = None,
                                raw_title = None, raw_company = None\<rparr>,
            raw_content = Some (ContentString (js ''hi'')), raw_metrics = None,
            raw_media = None\<rparr>) \<noteq> None"
  "formatPostData validUrl None = None"
  by (simp_all add: formatPostData_def formatPostData_try_def buildFormatted_def andThen_def
      validatePostData_def formatContent_def formatAuthorData_def formatMediaData_def Let_def
      sanitizeString_def trim_def js_def isWhiteSpace_def isPrintable_def isLineBreakOrTab_def)

subsection \<open>Identifiers (C1)\<close>

lemma generatePostId_native:
  assumes "getAttribute el = Some attr" and "nativeId attr = Some urn" and "urn \<noteq> []"
  shows "generatePostId d (Some el) = urn"
  using assms by (simp add: generatePostId_def)

lemma generatePostId_fallback:
  assumes "getAttribute el = Some attr" and "\<not> truthy (nativeId attr)"
  shows "generatePostId d (Some el) = fallbackId d"
  using assms by (auto simp: generatePostId_def truthy_def split: option.splits)

lemma getPostId_data_id:
  assumes "getAttribute el = Some attr" and "truthy (attr ''data-id'')"
  shows "getPostId el = Inr (attr ''data-id'')"
  using assms by (simp add: getPostId_def callGetAttribute_def andThen_def)

text \<open>
  Claim C1, as amended. For every post container that is a DOM element, with attribute
  function \<open>attr\<close>: when it carries a platform-native identifier (the first non-empty
  of \<open>data-urn\<close>, \<open>data-id\<close>, \<open>data-activity-urn\<close>), \<open>generatePostId\<close> returns that
  attribute value unchanged whatever the clock and the random source give, hence the
  same on every call and for every element with the same attributes; \<open>getPostId\<close>
  returns a non-empty \<open>data-id\<close> unchanged; and when it carries no native identifier,
  \<open>generatePostId\<close> returns \<open>post_\<close>, the current time in milliseconds, \<open>_\<close> and up
  to nine random base-36 digits.
\<close>

theorem identifier_native_attribute:
  assumes "getAttribute el = Some attr"
  shows "(truthy (nativeId attr) \<longrightarrow>
            (\<exists>urn. nativeId attr = Some urn \<and> (\<forall>d. generatePostId d (Some el) = urn))) \<and>
         (truthy (attr ''data-id'') \<longrightarrow> getPostId el = Inr (attr ''data-id'')) \<and>
         (\<not> truthy (nativeId attr) \<longrightarrow>
            (\<forall>d. generatePostId d (Some el) =
                   js ''post_'' @ decimal (fst d) @ js ''_'' @ take 9 (map digit36 (snd d))))"
proof (intro conjI impI)
  assume t: "truthy (nativeId attr)"
  then obtain urn where u: "nativeId attr = Some urn" "urn \<noteq> []"
    by (auto simp: truthy_def split: option.splits)
  with assms have "\<forall>d. generatePostId d (Some el) = urn"
    by (simp add: generatePostId_native)
  with u show "\<exists>urn. nativeId attr = Some urn \<and> (\<forall>d. generatePostId d (Some el) = urn)" by blast
next
  assume "truthy (attr ''data-id'')"
  with assms show "getPostId el = Inr (attr ''data-id'')" by (rule getPostId_data_id)
next
  assume "\<not> truthy (nativeId attr)"
  with assms show "\<forall>d. generatePostId d (Some el) =
      js ''post_'' @ decimal (fst d) @ js ''_'' @ take 9 (map digit36 (snd d))"
    by (simp add: generatePostId_fallback fallbackId_def)
qed

lemma decimal_small: "n < 10 \<Longrightarrow> decimal n = [48 + n]"
  by (simp add: decimal.simps)

text \<open>
  Witness for C1: a post with \<open>data-urn\<close> gets that value at two different draws, a
  post with \<open>data-id\<close> gets it from \<open>getPostId\<close>, and the element without
  attributes gets \<open>post_7_az\<close> at time 7 with random digits \<open>a\<close>, \<open>z\<close>.
\<close>

theorem identifier_native_attribute_witness:
  "generatePostId (1, [1]) (Some urnPost) = js ''urn:li:activity:123456789'' \<and>
   generatePostId (2, [5, 6]) (Some urnPost) = js ''urn:li:activity:123456789'' \<and>
   getPostId dataIdPost = Inr (Some (js ''urn:li:activity:42'')) \<and>
   generatePostId (7, [10, 35]) (Some emptyElement) = js ''post_7_az''"
proof -
  let ?a = "\<lambda>a. if a = ''data-urn'' then Some (js ''urn:li:activity:123456789'') else None"
  let ?b = "\<lambda>a. if a = ''data-id'' then Some (js ''urn:li:activity:42'') else None"
  let ?c = "\<lambda>a::string. None :: jsstring option"
  have ga: "getAttribute urnPost = Some ?a" by (simp add: urnPost_def)
  have gb: "getAttribute dataIdPost = Some ?b" by (simp add: dataIdPost_def)
  have gc: "getAttribute emptyElement = Some ?c" by (simp add: emptyElement_def)
  have na: "nativeId ?a = Some (js ''urn:li:activity:123456789'')"
    by (simp add: nativeId_def truthy_def js_def)
  have ta: "truthy (nativeId ?a)" by (simp add: na truthy_def js_def)
  have tb: "truthy (?b ''data-id'')" by (simp add: truthy_def js_def)
  have tc: "\<not> truthy (nativeId ?c)" by (simp add: nativeId_def truthy_def)
  from identifier_native_attribute [OF ga] ta na
  have 1: "\<forall>d. generatePostId d (Some urnPost) = js ''urn:li:activity:123456789''" by auto
  from identifier_native_attribute [OF gb] tb
  have 2: "getPostId dataIdPost = Inr (Some (js ''urn:li:activity:42''))" by simp
  from identifier_native_attribute [OF gc] tc
  have "generatePostId (7, [10, 35]) (Some emptyElement) =
      js ''post_'' @ decimal (fst (7::nat, [10, 35::nat])) @ js ''_'' @ take 9 (map digit36 (snd (7::nat, [10, 35::nat])))"
    by blast
  then have 3: "generatePostId (7, [10, 35]) (Some emptyElement) = js ''post_7_az''"
    by (simp add: decimal_small digit36_def js_def)
  from 1 2 3 show ?thesis by simp
qed

text \<open>
  Counterexample to C1 as stated: for the element with no native attribute (and no
  detail URL or text at all), two calls of \<open>generatePostId\<close> that read the clock at 1
  and at 2 return \<open>post_1_1\<close> and \<open>post_2_1\<close>: the identifier is not a function of
  the content.
\<close>

theorem fallback_identifier_not_stable:
  "generatePostId (1, [1]) (Some emptyElement) = js ''post_1_1'' \<and>
   generatePostId (2, [1]) (Some emptyElement) = js ''post_2_1'' \<and>
   generatePostId (1, [1]) (Some emptyElement) \<noteq> generatePostId (2, [1]) (Some emptyElement)"
  by (simp add: generatePostId_def emptyElement_def nativeId_def truthy_def fallbackId_def
      decimal_small digit36_def js_def)

lemma splitDot_plain: "CHR ''.'' \<notin> set s \<Longrightarrow> splitDot s = [s]"
  by (subst splitDot.simps) simp

text \<open>
  The lookups of \<open>getPostId\<close> name the type \<open>content\<close>, which is no key of
  \<open>contentSelectors\<close>; the fallback \<open>this[type + 'Selectors']\<close> then finds the table
  \<open>contentSelectors\<close> itself, and the one selector handed to \<open>querySelector\<close> is the
  text \<open>[object Object]\<close>.
\<close>

lemma getAllSelectors_content:
  "getAllSelectors ''content'' (Some ''postUrl'') = [SelObject contentSelectors]"
  "getAllSelectors ''content'' (Some ''text'') = [SelObject contentSelectors]"
  by (simp_all add: getAllSelectors_def splitDot_plain contentSelectors_def instanceProperties_def)

lemma findElement_content:
  "findElement el ''content'' (Some ''postUrl'') =
     (case querySelector el ''[object Object]'' of
        Inl e \<Rightarrow> Inl e | Inr found \<Rightarrow> Inr found)"
  "findElement el ''content'' (Some ''text'') =
     (case querySelector el ''[object Object]'' of
        Inl e \<Rightarrow> Inl e | Inr found \<Rightarrow> Inr found)"
  by (auto simp: findElement_def getAllSelectors_content split: sum.splits option.splits)

text \<open>
  A document rejects that text as a selector. On such a page \<open>getPostId\<close> throws for
  every post without a \<open>data-id\<close>, and its content hash is never computed.
\<close>

lemma getPostId_without_data_id:
  assumes "getAttribute el = Some attr" and "\<not> truthy (attr ''data-id'')"
    and "querySelector el ''[object Object]'' = Inl e"
  shows "getPostId el = Inl e"
  using assms
  by (simp add: getPostId_def callGetAttribute_def andThen_def findElement_content)

text \<open>
  The registry lookups the scanner makes do reach their selector lists.
\<close>

lemma getAllSelectors_scanner:
  "getAllSelectors ''post'' None = map SelString postSelectors"
  "getAllSelectors ''author'' (Some ''name'') =
     map SelString [''.feed-shared-actor__name .visually-hidden'', ''.feed-shared-actor__name'',
       ''.update-components-actor__name .visually-hidden'', ''.update-components-actor__name'']"
  by (simp_all add: getAllSelectors_def splitDot_plain contentSelectors_def instanceProperties_def)

subsection \<open>Relative time labels (C2)\<close>

lemma matchAtHead_digits_unit:
  assumes "ds \<noteq> []" and "list_all isDigit ds"
    and "u \<in> set (js ''mhdwyMHDWY'')"
  shows "matchAtHead (ds @ u # rest) = Some (ds, [u])"
proof -
  from assms(3) have nd: "\<not> isDigit u" by (auto simp: js_def isDigit_def)
  from assms(2) have all: "\<forall>x\<in>set ds. isDigit x" by (simp add: list_all_iff)
  from all nd have t: "takeWhile isDigit (ds @ u # rest) = ds"
    by simp
  from all nd have d: "dropWhile isDigit (ds @ u # rest) = u # rest"
    by simp
  from assms(3) have "hd (toLowerCase (u # rest)) \<in> set (js ''mhdwy'')"
    by (auto simp: js_def toLowerCase_def)
  with assms(1) show ?thesis by (simp add: matchAtHead_def t d)
qed

lemma regexMatch_digits_unit:
  assumes "ds \<noteq> []" and "list_all isDigit ds"
    and "u \<in> set (js ''mhdwyMHDWY'')"
  shows "regexMatch (ds @ u # rest) = Some (ds, [u])"
proof -
  from assms(1) obtain c cs where "ds = c # cs" by (cases ds) auto
  then have "regexMatch (ds @ u # rest) =
      (case matchAtHead (ds @ u # rest) of Some groups \<Rightarrow> Some groups
       | None \<Rightarrow> regexMatch (cs @ u # rest))" by simp
  with matchAtHead_digits_unit [OF assms] show ?thesis by simp
qed

text \<open>
  Every label \<open><n>mo\<close> is read as \<open>n\<close> minutes: the class \<open>[mhdwy]\<close> matches the
  \<open>m\<close>, so the second group is \<open>m\<close> and the \<open>mo\<close> case of the switch is never taken.
\<close>

lemma parseRelativeTime_months_as_minutes:
  assumes "ds \<noteq> []" and "list_all isDigit ds"
  shows "parseRelativeTime h (ds @ js ''mo'') =
         toISOString h (date_now h - int (digitsValue ds) * (60 * 1000))"
proof -
  have "regexMatch (ds @ 109 # [111]) = Some (ds, [109])"
    using assms by (intro regexMatch_digits_unit) (simp_all add: js_def)
  then show ?thesis
    by (simp add: parseRelativeTime_def js_def unitMillis_def toLowerCase_def)
qed

text \<open>The single-letter units are read as the unit table says, for every \<open>n\<close>.\<close>

lemma parseRelativeTime_single_letter_units:
  assumes "ds \<noteq> []" and "list_all isDigit ds"
  shows "parseRelativeTime h (ds @ js ''m'') =
           toISOString h (date_now h - int (digitsValue ds) * (60 * 1000))"
    and "parseRelativeTime h (ds @ js ''h'') =
           toISOString h (date_now h - int (digitsValue ds) * (60 * 60 * 1000))"
    and "parseRelativeTime h (ds @ js ''d'') =
           toISOString h (date_now h - int (digitsValue ds) * (24 * 60 * 60 * 1000))"
    and "parseRelativeTime h (ds @ js ''w'') =
           toISOString h (date_now h - int (digitsValue ds) * (7 * 24 * 60 * 60 * 1000))"
    and "parseRelativeTime h (ds @ js ''y'') =
           toISOString h (date_now h - int (digitsValue ds) * (365 * 24 * 60 * 60 * 1000))"
proof -
  have m: "regexMatch (ds @ 109 # []) = Some (ds, [109])"
    using assms by (intro regexMatch_digits_unit) (simp_all add: js_def)
  have h: "regexMatch (ds @ 104 # []) = Some (ds, [104])"
    using assms by (intro regexMatch_digits_unit) (simp_all add: js_def)
  have d: "regexMatch (ds @ 100 # []) = Some (ds, [100])"
    using assms by (intro regexMatch_digits_unit) (simp_all add: js_def)
  have w: "regexMatch (ds @ 119 # []) = Some (ds, [119])"
    using assms by (intro regexMatch_digits_unit) (simp_all add: js_def)
  have y: "regexMatch (ds @ 121 # []) = Some (ds, [121])"
    using assms by (intro regexMatch_digits_unit) (simp_all add: js_def)
  show "parseRelativeTime h (ds @ js ''m'') =
           toISOString h (date_now h - int (digitsValue ds) * (60 * 1000))"
    using m by (simp add: parseRelativeTime_def js_def unitMillis_def toLowerCase_def)
  show "parseRelativeTime h (ds @ js ''h'') =
           toISOString h (date_now h - int (digitsValue ds) * (60 * 60 * 1000))"
    using h by (simp add: parseRelativeTime_def js_def unitMillis_def toLowerCase_def)
  show "parseRelativeTime h (ds @ js ''d'') =
           toISOString h (date_now h - int (digitsValue ds) * (24 * 60 * 60 * 1000))"
    using d by (simp add: parseRelativeTime_def js_def unitMillis_def toLowerCase_def)
  show "parseRelativeTime h (ds @ js ''w'') =
           toISOString h (date_now h - int (digitsValue ds) * (7 * 24 * 60 * 60 * 1000))"
    using w by (simp add: parseRelativeTime_def js_def unitMillis_def toLowerCase_def)
  show "parseRelativeTime h (ds @ js ''y'') =
           toISOString h (date_now h - int (digitsValue ds) * (365 * 24 * 60 * 60 * 1000))"
    using y by (simp add: parseRelativeTime_def js_def unitMillis_def toLowerCase_def)
qed

text \<open>
  Claim C2 fails on the code at \<open>"1mo"\<close>: the match gives the groups \<open>1\<close> and \<open>m\<close>,
  and the result is the timestamp of now minus 60000 milliseconds (one minute), not of
  now minus 30 times 24 hours.
\<close>

theorem parseRelativeTime_1mo_is_one_minute:
  "regexMatch (js ''1mo'') = Some (js ''1'', js ''m'') \<and>
   parseRelativeTime h (js ''1mo'') = toISOString h (date_now h - 60000)"
  by (simp add: parseRelativeTime_def matchAtHead_def unitMillis_def parse_defs)

lemma parseRelativeTime_2h:
  "parseRelativeTime h (js ''2h'') = toISOString h (date_now h - 2 * 60 * 60 * 1000)"
  by (simp add: parseRelativeTime_def matchAtHead_def unitMillis_def parse_defs)

subsection \<open>Per-field failures (C3)\<close>

text \<open>
  Claim C3 fails on the code: for the object of the unit test, which is not null and
  whose \<open>querySelector\<close> throws, the author extractor throws and \<open>extractPost\<close>
  returns \<open>null\<close> for every setting and host.
\<close>

theorem extractPost_null_on_field_failure:
  "extractPost s h (Some throwingMock) = None \<and>
   extractAuthorName throwingMock = Inl (Error ''DOM error'')"
  by (simp add: extractPost_def extractPost_try_def extractAuthor_def extractAuthorName_def
      authorNameSelectors_def throwingMock_def andThen_def Let_def)

subsection \<open>Author name (C4)\<close>

lemma forSelectors_no_match:
  "\<forall>s\<in>set sels. querySelector el s = Inr None \<Longrightarrow> forSelectors el body dflt sels = Inr dflt"
  by (induction sels) simp_all

text \<open>When no author element matches, the name is the sentinel \<open>Unknown\<close>.\<close>

lemma extractAuthorName_no_match:
  "\<forall>s\<in>set authorNameSelectors. querySelector el s = Inr None \<Longrightarrow>
   extractAuthorName el = Inr (js ''Unknown'')"
  by (simp add: extractAuthorName_def forSelectors_no_match)

text \<open>The formatter replaces a missing or empty raw name by \<open>Unknown\<close>.\<close>

lemma formatAuthorData_missing_name:
  "raw_name a = None \<or> raw_name a = Some [] \<Longrightarrow>
   author_name (formatAuthorData validUrl (Some a)) = js ''Unknown''"
  "author_name (formatAuthorData validUrl None) = js ''Unknown''"
  by (auto simp: formatAuthorData_def sanitizeString_def trim_def js_def isWhiteSpace_def
      isPrintable_def isLineBreakOrTab_def)

text \<open>
  Claim C4 fails on the code: for a post whose author-name element is present with
  empty text, \<open>extractAuthorName\<close> returns the empty string, and so does the
  \<open>author.name\<close> of the record \<open>extractPost\<close> returns.
\<close>

theorem extractAuthorName_empty:
  "extractAuthorName blankNamePost = Inr [] \<and>
   map_option (\<lambda>p. ex_name (ex_author p)) (extractPost defaultSettings h (Some blankNamePost)) =
     Some []"
proof -
  have n: "extractAuthorName blankNamePost = Inr []"
    by (simp add: extractAuthorName_def authorNameSelectors_def blankNamePost_def
        emptyElement_def trim_def)
  have t: "extractAuthorTitle blankNamePost = Inr []"
    by (simp add: extractAuthorTitle_def authorTitleSelectors_def blankNamePost_def)
  have p: "extractAuthorProfileUrl blankNamePost = Inr []"
    by (simp add: extractAuthorProfileUrl_def authorProfileSelectors_def blankNamePost_def)
  have c: "extractContent blankNamePost = Inr []"
    by (simp add: extractContent_def contentSelectorList_def blankNamePost_def)
  have ts: "extractTimestamp h blankNamePost = Inr None"
    by (simp add: extractTimestamp_def timestampSelectors_def blankNamePost_def)
  have m: "extractMetrics blankNamePost = Inr \<lparr>ex_likes = Num 0, ex_comments = Num 0, ex_shares = Num 0\<rparr>"
    by (simp add: extractMetrics_def extractLikes_def extractComments_def extractShares_def
        extractCount_def likesSelectors_def commentsSelectors_def sharesSelectors_def
        blankNamePost_def andThen_def)
  have i: "extractImages blankNamePost = Inr []"
    by (simp add: extractImages_def blankNamePost_def andThen_def)
  show ?thesis
    by (simp add: n extractPost_def extractPost_try_def extractAuthor_def t p c ts m i
        andThen_def defaultSettings_def Let_def)
qed

subsection \<open>Example scans, evaluated\<close>

lemmas scan_eval =
  scanReports_def startScan_def startScan_enter_def scanBody_def scanEnter_def loadMorePosts_def
  batchLoop.simps loadMoreLoop.simps batchStep_def batchWork_def loadMoreReport_def
  reportProgress_def dispatchScanEvent_def await_def stopScan_def handlePageChange_def
  clearExtractedPosts_def cleanup_def nextPosts_def mergeOptions_def orNat_def shouldIncludePost_def
  andThen_def Let_def exampleExtractor_def examplePreferences_def noOptions_def idleScanner_def

subsection \<open>Scan state guard (C7)\<close>

text \<open>
  The guard of \<open>startScan\<close> reads the flag \<open>isScanning\<close>: while the flag is set, the
  call throws \<open>Scan already in progress\<close> and leaves the scanner as it was.
\<close>

lemma startScan_rejected_when_flag_set:
  "isScanning s \<Longrightarrow> startScan env options s = (Inl (Error ''Scan already in progress''), s)"
  by (simp add: startScan_def startScan_enter_def)

text \<open>
  The flag is not the state of the scan. \<open>stopScan()\<close>, \<open>handlePageChange()\<close> and
  \<open>cleanup()\<close> clear it, and from then on a \<open>startScan()\<close> is accepted and empties the
  list, whatever the scanner holds.
\<close>

lemma startScan_enter_after_stopScan:
  "startScan_enter (stopScan s) = Inr ((stopScan s)\<lparr>isScanning := True, extractedPosts := []\<rparr>)"
  "startScan_enter (handlePageChange s) =
     Inr ((handlePageChange s)\<lparr>isScanning := True, extractedPosts := []\<rparr>)"
  "startScan_enter (cleanup s) = Inr ((cleanup s)\<lparr>isScanning := True, extractedPosts := []\<rparr>)"
  by (simp_all add: startScan_enter_def stopScan_def handlePageChange_def cleanup_def
      dispatchScanEvent_def)

text \<open>
  The scan itself goes on after a \<open>stopScan()\<close>: on \<open>stoppingPage\<close> the scan is stopped
  while it waits after its first batch; it then runs the round of the second batch,
  reports once more, saves the posts and completes.
\<close>

lemma scan_goes_on_after_stopScan:
  "events (snd (startScan stoppingPage noOptions idleScanner)) =
     [ScanStarted, ScanProgress \<lparr>current = 5, total = 6\<rparr> 5, ScanStopped 5,
      ScanProgress \<lparr>current = 5, total = 6\<rparr> 5, ScanCompleted 5]"
  by (simp add: scan_eval stoppingPage_def)

text \<open>
  \<open>busyScanner\<close> is the scanner of the scan of \<open>restartPage\<close> from the idle scanner,
  at the end of the first round of the loop, before \<open>await this.delay(100)\<close>.
\<close>

lemma busyScanner_reached:
  "startScan_enter idleScanner = Inr (idleScanner\<lparr>isScanning := True\<rparr>)"
  "getSettings restartPage = Inr examplePreferences"
  "batchWork restartPage (mergeOptions noOptions examplePreferences)
     (take 5 (drop 0 (initialPosts restartPage)))
     (scanEnter restartPage (mergeOptions noOptions examplePreferences)
        (await restartPage (idleScanner\<lparr>isScanning := True\<rparr>))) = busyScanner"
  by (simp_all add: scan_eval restartPage_def busyScanner_def)

text \<open>
  Claim C7 fails on the code. A scan is in flight: \<open>busyScanner\<close> has extracted five
  posts, has reported \<open>5 of 6\<close> and waits before its second batch. The user presses
  Stop and then Start. \<open>stopScan()\<close> clears \<open>isScanning\<close> while the loop of the scan
  goes on, so the guard of the second \<open>startScan()\<close> passes: the call is not rejected,
  and it empties the list of the scan in flight.
\<close>

theorem startScan_accepted_after_stopScan:
  "isScanning busyScanner \<and>
   length (extractedPosts busyScanner) = 5 \<and>
   startScan_enter (stopScan busyScanner) =
     Inr (busyScanner\<lparr>extractedPosts := [], events := events busyScanner @ [ScanStopped 5]\<rparr>) \<and>
   await restartPage busyScanner =
     busyScanner\<lparr>extractedPosts := [], events := events busyScanner @ [ScanStopped 5],
                  ticks := 2\<rparr>"
  by (simp add: busyScanner_def restartPage_def await_def startScan_enter_def stopScan_def
      dispatchScanEvent_def)

subsection \<open>Progress reports (C8)\<close>

text \<open>
  On \<open>growingPage\<close> the load-more phase starts \<open>lastPostCount\<close> at 2, the number of
  posts extracted, although four posts were discovered: the rediscovered list is
  sliced at 2, and post 3 is processed and extracted a second time.
\<close>

lemma growing_scan:
  "scanReports growingPage noOptions idleScanner = [(2, 4, 2), (4, 5, 4)]"
  "fst (startScan growingPage noOptions idleScanner) =
     Inr [examplePost 0, examplePost 3, examplePost 3, examplePost 4]"
  by (simp_all add: scan_eval growingPage_def)

text \<open>
  On \<open>navigatingPage\<close> the page changes while the scan waits after its first batch:
  \<open>handlePageChange()\<close> replaces the progress by \<open>{0, 0}\<close>, the loop goes on, and the
  report of the second round is \<open>0 of 0\<close> with five posts extracted.
\<close>

lemma navigating_scan:
  "scanReports navigatingPage noOptions idleScanner = [(5, 6, 5), (0, 0, 5)]"
  by (simp add: scan_eval navigatingPage_def)

text \<open>
  Claim C8 fails on the code. The page shows four posts, of which two cannot be
  extracted, and after the first scroll three (the posts 0, 3 and 4). \<open>loadMorePosts\<close>
  starts \<open>lastPostCount\<close> at 2, the number of posts extracted, not at 4, the number
  discovered; the rediscovered list is sliced at 2, post 4 is taken as new, and the
  total is set to 3. The scan reports \<open>2 of 4\<close> after the initial batch and \<open>3 of 3\<close>
  in the load-more phase: the total decreases from 4 to 3.
\<close>

theorem scan_total_decreases:
  "scanReports shrinkingPage noOptions idleScanner = [(2, 4, 2), (3, 3, 3)] \<and>
   \<not> sorted (map (\<lambda>(c, t, x). t) (scanReports shrinkingPage noOptions idleScanner))"
proof -
  have "scanReports shrinkingPage noOptions idleScanner = [(2, 4, 2), (3, 3, 3)]"
    by (simp add: scan_eval shrinkingPage_def)
  then show ?thesis by simp
qed

end
